theory Spec2Isabelle
  imports Main "HOL-Library.Multiset" "HOL-Library.Sublist"
begin

section \<open>Domain model (frontend/src/types/index.ts)\<close>

text \<open>
  \<^verbatim>\<open>TaskStatus\<close> is a constant object of three string literals, and the type of the same
  name is the union of those literals. At run time a status is a string (it arrives in
  JSON, and the drag-and-drop handler casts an arbitrary identifier to it), so the model
  keeps it a string and names the three literals.
\<close>

type_synonym TaskStatus = string

definition TODO :: TaskStatus where
  "TODO = ''TODO''"

definition IN_PROGRESS :: TaskStatus where
  "IN_PROGRESS = ''IN_PROGRESS''"

definition DONE :: TaskStatus where
  "DONE = ''DONE''"

text \<open>
  The \<^verbatim>\<open>Task\<close> interface. \<^verbatim>\<open>total_minutes\<close> is a JavaScript number; the model keeps
  the integers. Optional and nullable fields are options.
\<close>

record Task =
  task_id :: string
  title :: string
  description :: "string option"
  status :: TaskStatus
  total_minutes :: int
  user_id :: string
  assigned_to :: "string option"
  created_at :: string
  updated_at :: string

section \<open>The advance button (the TaskCard component, getNextStatus)\<close>

text \<open>
  \<^verbatim>\<open>
  switch (currentStatus) {
    case TaskStatus.TODO:        return TaskStatus.IN_PROGRESS;
    case TaskStatus.IN_PROGRESS: return TaskStatus.DONE;
    case TaskStatus.DONE:        return TaskStatus.TODO;
    default:                     return TaskStatus.IN_PROGRESS;
  }
  \<close>
\<close>

definition getNextStatus :: "TaskStatus \<Rightarrow> TaskStatus" where
  "getNextStatus currentStatus =
     (if currentStatus = TODO then IN_PROGRESS
      else if currentStatus = IN_PROGRESS then DONE
      else if currentStatus = DONE then TODO
      else IN_PROGRESS)"

section \<open>The Kanban board's columns (pages/Kanban.tsx, tasksByStatus)\<close>

text \<open>
  The three column lists, in the order \<^verbatim>\<open>TODO\<close>, \<^verbatim>\<open>IN_PROGRESS\<close>, \<^verbatim>\<open>DONE\<close>.
  \<^verbatim>\<open>tasks\<close> is undefined until the first fetch has returned: then every column is
  empty.
\<close>

record columns =
  col_TODO :: "Task list"
  col_IN_PROGRESS :: "Task list"
  col_DONE :: "Task list"

definition tasksByStatus :: "Task list option \<Rightarrow> columns" where
  "tasksByStatus tasks =
     (case tasks of
        None \<Rightarrow> \<lparr>col_TODO = [], col_IN_PROGRESS = [], col_DONE = []\<rparr>
      | Some ts \<Rightarrow>
          \<lparr>col_TODO = filter (\<lambda>task. status task = TODO) ts,
           col_IN_PROGRESS = filter (\<lambda>task. status task = IN_PROGRESS) ts,
           col_DONE = filter (\<lambda>task. status task = DONE) ts\<rparr>)"

text \<open>The column a status names, as the \<^verbatim>\<open>columns\<close> array of the page pairs them.\<close>

definition column_for :: "columns \<Rightarrow> TaskStatus \<Rightarrow> Task list" where
  "column_for cs s =
     (if s = TODO then col_TODO cs
      else if s = IN_PROGRESS then col_IN_PROGRESS cs
      else if s = DONE then col_DONE cs
      else [])"

definition column_counts :: "columns \<Rightarrow> nat list" where
  "column_counts cs = [length (col_TODO cs), length (col_IN_PROGRESS cs), length (col_DONE cs)]"

section \<open>Rendering a number in a template string\<close>

text \<open>
  A template string renders an integer in decimal, with a minus sign when it is
  negative. (A JavaScript number holds every integer up to \<open>2\<^sup>5\<^sup>3\<close> and is written
  with all its digits up to there; minute counts are far below.)
\<close>

definition digit_char :: "nat \<Rightarrow> char" where
  "digit_char d = ''0123456789'' ! d"

fun show_nat :: "nat \<Rightarrow> string" where
  "show_nat n = (if n < 10 then [digit_char n] else show_nat (n div 10) @ [digit_char (n mod 10)])"

declare show_nat.simps [simp del]

definition show_int :: "int \<Rightarrow> string" where
  "show_int i = (if i < 0 then CHR ''-'' # show_nat (nat (- i)) else show_nat (nat i))"

text \<open>Reading a decimal numeral back, used to show that rendering loses nothing.\<close>

definition digit_value :: "char \<Rightarrow> nat" where
  "digit_value c = of_char c - 48"

definition read_nat :: "string \<Rightarrow> nat" where
  "read_nat ds = foldl (\<lambda>acc c. 10 * acc + digit_value c) 0 ds"

section \<open>The query cache and the notifications\<close>

text \<open>
  What a handler of the hooks can do: invalidate the queries under a key, write data
  into the cache under a key (\<^verbatim>\<open>setQueryData\<close>, which no handler of the repository
  calls), and show a success or an error notification. A success notification is given
  a text or, in one corner of the status change, a member that every object inherits,
  named here.
\<close>

type_synonym QueryKey = "string list"

datatype effect =
    InvalidateQueries QueryKey
  | SetQueryData QueryKey "Task list"
  | ToastSuccess string
  | ToastSuccessMember string
  | ToastError string

fun is_cache_write :: "effect \<Rightarrow> bool" where
  "is_cache_write (SetQueryData _ _) = True"
| "is_cache_write _ = False"

fun is_invalidation :: "effect \<Rightarrow> bool" where
  "is_invalidation (InvalidateQueries _) = True"
| "is_invalidation _ = False"

fun is_error_toast :: "effect \<Rightarrow> bool" where
  "is_error_toast (ToastError _) = True"
| "is_error_toast _ = False"

record query_entry =
  entry_data :: "Task list"
  dataUpdatedAt :: nat
  isInvalidated :: bool

type_synonym query_cache = "QueryKey \<rightharpoonup> query_entry"

datatype toast = Success string | SuccessMember string | Failure string

record client_state =
  cache :: query_cache
  toasts :: "toast list"

text \<open>
  Modelled from the spec: the caching library (@tanstack/react-query) is not part of
  the repository. "Cache invalidation: marking previously fetched data as stale so the
  next read triggers a fresh network fetch"; the filter \<^verbatim>\<open>{ queryKey: ['tasks'] }\<close>
  matches every query whose key starts with the given key.
\<close>

definition invalidateQueries :: "QueryKey \<Rightarrow> query_cache \<Rightarrow> query_cache" where
  "invalidateQueries k c =
     (\<lambda>q. case c q of
            None \<Rightarrow> None
          | Some e \<Rightarrow> if prefix k q then Some (e\<lparr>isInvalidated := True\<rparr>) else Some e)"

text \<open>
  Modelled from the spec: "a read returns cached data immediately if not stale,
  otherwise triggers a background re-fetch". The result is the data served from the
  cache, if any, and whether a network fetch is issued: it is when nothing is cached,
  when the entry was invalidated, or when it is older than the stale time.
\<close>

definition read_query :: "query_cache \<Rightarrow> QueryKey \<Rightarrow> nat \<Rightarrow> nat \<Rightarrow> Task list option \<times> bool" where
  "read_query c q staleTime now =
     (case c q of
        None \<Rightarrow> (None, True)
      | Some e \<Rightarrow> (Some (entry_data e), isInvalidated e \<or> dataUpdatedAt e + staleTime \<le> now))"

fun apply_effect :: "client_state \<Rightarrow> effect \<Rightarrow> client_state" where
  "apply_effect st (InvalidateQueries k) = st\<lparr>cache := invalidateQueries k (cache st)\<rparr>"
| "apply_effect st (SetQueryData k d) =
     st\<lparr>cache := (cache st)(k \<mapsto> \<lparr>entry_data = d, dataUpdatedAt = 0, isInvalidated = False\<rparr>)\<rparr>"
| "apply_effect st (ToastSuccess m) = st\<lparr>toasts := toasts st @ [Success m]\<rparr>"
| "apply_effect st (ToastSuccessMember n) = st\<lparr>toasts := toasts st @ [SuccessMember n]\<rparr>"
| "apply_effect st (ToastError m) = st\<lparr>toasts := toasts st @ [Failure m]\<rparr>"

definition apply_effects :: "client_state \<Rightarrow> effect list \<Rightarrow> client_state" where
  "apply_effects st es = foldl apply_effect st es"

text \<open>What the board shows: the data of the \<^verbatim>\<open>['tasks']\<close> query (hooks/useTasks, useTasks).\<close>

definition tasks_key :: QueryKey where
  "tasks_key = [''tasks'']"

definition useTasks_staleTime :: nat where
  "useTasks_staleTime = 1000 * 60 * 5"

definition displayed_tasks :: "client_state \<Rightarrow> Task list option" where
  "displayed_tasks st = map_option entry_data (cache st tasks_key)"

section \<open>The task mutation hooks (hooks/useTasks)\<close>

datatype task_hook =
    useCreateTask
  | useUpdateTask
  | useUpdateTaskStatus
  | useAddTimeToTask
  | useDeleteTask

text \<open>
  What the mutation function resolved to: the task the server returned, or nothing
  (the \<^verbatim>\<open>void\<close> of \<^verbatim>\<open>deleteTask\<close>, or a body that is \<^verbatim>\<open>null\<close>).
\<close>

datatype mutation_data = TaskData Task | NoData

text \<open>
  \<^verbatim>\<open>toast.success(msgs[task.status] || 'Task updated')\<close>, where \<^verbatim>\<open>msgs\<close> is an
  object literal with the three statuses for keys. A status that names a member every
  object inherits finds that member, a function or an object and so truthy, and the
  notification is given the member. The three statuses find their messages, and any other
  string the fallback. The last message ends in the party-popper emoji, U+1F389, here in
  UTF-8.
\<close>

definition inherited_members :: "string list" where
  "inherited_members =
     [''constructor'', ''hasOwnProperty'', ''isPrototypeOf'', ''propertyIsEnumerable'',
      ''toLocaleString'', ''toString'', ''valueOf'', ''__proto__'',
      ''__defineGetter__'', ''__defineSetter__'', ''__lookupGetter__'', ''__lookupSetter__'']"

definition status_message :: "TaskStatus \<Rightarrow> string" where
  "status_message s =
     (if s = TODO then ''Moved to Todo''
      else if s = IN_PROGRESS then ''Started!''
      else if s = DONE then ''Done! '' @ [CHR 0xF0, CHR 0x9F, CHR 0x8E, CHR 0x89]
      else ''Task updated'')"

definition status_toast :: "TaskStatus \<Rightarrow> effect" where
  "status_toast s =
     (if s \<in> set inherited_members then ToastSuccessMember s
      else ToastSuccess (status_message s))"

text \<open>
  The \<^verbatim>\<open>onSuccess\<close> handlers. Each invalidates first and shows its notification
  second. The handlers of the status change and of the time log read a field of the
  returned task: with no task returned the read throws after the invalidation, and the
  notification is not shown.
\<close>

fun onSuccess :: "task_hook \<Rightarrow> mutation_data \<Rightarrow> effect list" where
  "onSuccess useCreateTask _ = [InvalidateQueries [''tasks''], ToastSuccess ''Task created!'']"
| "onSuccess useUpdateTask _ = [InvalidateQueries [''tasks''], ToastSuccess ''Task updated!'']"
| "onSuccess useUpdateTaskStatus (TaskData task) =
     [InvalidateQueries [''tasks''], status_toast (status task)]"
| "onSuccess useUpdateTaskStatus NoData = [InvalidateQueries [''tasks'']]"
| "onSuccess useAddTimeToTask (TaskData task) =
     [InvalidateQueries [''tasks''],
      ToastSuccess (''+'' @ show_int (total_minutes task) @ ''min logged'')]"
| "onSuccess useAddTimeToTask NoData = [InvalidateQueries [''tasks'']]"
| "onSuccess useDeleteTask _ = [InvalidateQueries [''tasks''], ToastSuccess ''Deleted'']"

text \<open>
  Whether the \<^verbatim>\<open>onSuccess\<close> handler throws: the two handlers that read a field of the
  returned task do when no task was returned.
\<close>

fun onSuccess_throws :: "task_hook \<Rightarrow> mutation_data \<Rightarrow> bool" where
  "onSuccess_throws useUpdateTaskStatus NoData = True"
| "onSuccess_throws useAddTimeToTask NoData = True"
| "onSuccess_throws _ _ = False"

fun onError :: "task_hook \<Rightarrow> effect list" where
  "onError useCreateTask = [ToastError ''Failed to create task'']"
| "onError useUpdateTask = [ToastError ''Failed to update task'']"
| "onError useUpdateTaskStatus = [ToastError ''Failed to update status'']"
| "onError useAddTimeToTask = [ToastError ''Failed to add time'']"
| "onError useDeleteTask = [ToastError ''Delete failed'']"

text \<open>No hook passes a \<^verbatim>\<open>retry\<close> option to \<^verbatim>\<open>useMutation\<close>.\<close>

fun hook_retry :: "task_hook \<Rightarrow> nat option" where
  "hook_retry _ = None"

text \<open>
  The callbacks a call site passes to \<^verbatim>\<open>mutate\<close>, as the effects they have on the
  cache and the notifications.
\<close>

record mutate_callbacks =
  cb_onSuccess :: "effect list"
  cb_onError :: "effect list"

definition no_callbacks :: mutate_callbacks where
  "no_callbacks = \<lparr>cb_onSuccess = [], cb_onError = []\<rparr>"

text \<open>
  Modelled from the spec: the caching library is not part of the repository; this is its
  mutation life cycle. When the mutation function resolves, the hook's \<^verbatim>\<open>onSuccess\<close>
  runs and then the call site's; when it rejects, the hook's \<^verbatim>\<open>onError\<close> and then the
  call site's. A hook's \<^verbatim>\<open>onSuccess\<close> that throws makes the mutation a failed one:
  after what the handler did before the throw, the \<^verbatim>\<open>onError\<close> handlers run. The
  outcome is \<open>Inl\<close> for a rejection (with the error's message) and \<open>Inr\<close> for the data.
\<close>

definition settle_effects :: "task_hook \<Rightarrow> mutate_callbacks \<Rightarrow> string + mutation_data \<Rightarrow> effect list" where
  "settle_effects h cb outcome =
     (case outcome of
        Inl err \<Rightarrow> onError h @ cb_onError cb
      | Inr d \<Rightarrow>
          if onSuccess_throws h d then onSuccess h d @ onError h @ cb_onError cb
          else onSuccess h d @ cb_onSuccess cb)"

definition settle :: "client_state \<Rightarrow> task_hook \<Rightarrow> mutate_callbacks \<Rightarrow> string + mutation_data \<Rightarrow> client_state" where
  "settle st h cb outcome = apply_effects st (settle_effects h cb outcome)"

text \<open>A task for the examples.\<close>

definition example_task :: "string \<Rightarrow> TaskStatus \<Rightarrow> int \<Rightarrow> Task" where
  "example_task i s m =
     \<lparr>task_id = i, title = ''Write tests'', description = None, status = s,
      total_minutes = m, user_id = ''u1'', assigned_to = None,
      created_at = ''2025-01-01'', updated_at = ''2025-01-01''\<rparr>"

text \<open>Whether the next read of a query must go to the network whatever its age.\<close>

definition must_refetch :: "query_cache \<Rightarrow> QueryKey \<Rightarrow> bool" where
  "must_refetch c q = (case c q of None \<Rightarrow> True | Some e \<Rightarrow> isInvalidated e)"

fun success_toasts :: "effect list \<Rightarrow> string list" where
  "success_toasts [] = []"
| "success_toasts (ToastSuccess m # es) = m # success_toasts es"
| "success_toasts (_ # es) = success_toasts es"

text \<open>
  Modelled from the spec: the server is not part of the repository. "Operation: add a
  positive integer number of minutes to a task's accumulated total"; "server returns the
  updated task with new total_minutes".
\<close>

definition server_add_time :: "Task \<Rightarrow> int \<Rightarrow> Task" where
  "server_add_time task minutes = task\<lparr>total_minutes := total_minutes task + minutes\<rparr>"

section \<open>The drag-and-drop controller (pages/Kanban.tsx, handleDragEnd)\<close>

text \<open>
  \<^verbatim>\<open>newStatus.replace('_', ' ').toLowerCase()\<close>: the first underscore becomes a space,
  and the letters are lowered (the letters of ASCII and of Latin-1, the code units the
  model's characters cover).
\<close>

fun replace_first :: "char \<Rightarrow> char \<Rightarrow> string \<Rightarrow> string" where
  "replace_first a b [] = []"
| "replace_first a b (c # cs) = (if c = a then b # cs else c # replace_first a b cs)"

definition lower_char :: "char \<Rightarrow> char" where
  "lower_char c =
     (let n = (of_char c :: nat)
      in if (65 \<le> n \<and> n \<le> 90) \<or> (192 \<le> n \<and> n \<le> 222 \<and> n \<noteq> 215)
         then char_of (n + 32) else c)"

definition toLowerCase :: "string \<Rightarrow> string" where
  "toLowerCase s = map lower_char s"

text \<open>
  The event the drag-and-drop library hands over: the identifier of the dragged item
  and, when the pointer was released over a droppable, the identifier of that droppable.
\<close>

record DragEndEvent =
  active_id :: string
  over_id :: "string option"

record mutate_call =
  call_id :: string
  call_status :: TaskStatus
  call_callbacks :: mutate_callbacks

definition dragEnd_callbacks :: "TaskStatus \<Rightarrow> mutate_callbacks" where
  "dragEnd_callbacks newStatus =
     \<lparr>cb_onSuccess =
        [ToastSuccess (''Task moved to '' @ toLowerCase (replace_first CHR ''_'' CHR '' '' newStatus) @ ''!'')],
      cb_onError = [ToastError ''Failed to update task status'']\<rparr>"

text \<open>
  The handler clears the tracked task and returns the calls of
  \<^verbatim>\<open>updateStatusMutation.mutate\<close> it makes.
  \<^verbatim>\<open>
  setActiveTask(null);
  const { active, over } = event;
  if (!over) return;
  const taskId = active.id as string;
  const newStatus = over.id as TaskStatus;
  const task = tasks?.find((t: Task) => t.id === taskId);
  if (!task || task.status === newStatus) return;
  updateStatusMutation.mutate({ id: taskId, status: newStatus }, { onSuccess, onError });
  \<close>
\<close>

definition handleDragEnd :: "Task list option \<Rightarrow> DragEndEvent \<Rightarrow> Task option \<times> mutate_call list" where
  "handleDragEnd tasks event =
     (case over_id event of
        None \<Rightarrow> (None, [])
      | Some newStatus \<Rightarrow>
          (let taskId = active_id event
           in case (case tasks of None \<Rightarrow> None | Some ts \<Rightarrow> find (\<lambda>t. task_id t = taskId) ts) of
                None \<Rightarrow> (None, [])
              | Some task \<Rightarrow>
                  if status task = newStatus then (None, [])
                  else (None, [\<lparr>call_id = taskId, call_status = newStatus,
                                call_callbacks = dragEnd_callbacks newStatus\<rparr>])))"

text \<open>
  The droppables of the board. Each column registers one under its status
  (components/Kanban/KanbanColumn.tsx, \<^verbatim>\<open>useDroppable({ id })\<close>), and each card
  rendered in a column registers one under the identifier of its task
  (components/Kanban/KanbanTaskCard.tsx, \<^verbatim>\<open>useSortable({ id: task.id })\<close> with
  \<^verbatim>\<open>ref={setNodeRef}\<close>), all inside the one \<^verbatim>\<open>DndContext\<close> of the page.
\<close>

datatype droppable = ColumnDrop TaskStatus | CardDrop string

fun droppable_id :: "droppable \<Rightarrow> string" where
  "droppable_id (ColumnDrop s) = s"
| "droppable_id (CardDrop i) = i"

definition board_droppables :: "Task list \<Rightarrow> droppable list" where
  "board_droppables ts =
     map ColumnDrop [TODO, IN_PROGRESS, DONE] @
     map (\<lambda>t. CardDrop (task_id t))
       (col_TODO (tasksByStatus (Some ts)) @ col_IN_PROGRESS (tasksByStatus (Some ts)) @
        col_DONE (tasksByStatus (Some ts)))"

definition drop_event :: "string \<Rightarrow> droppable option \<Rightarrow> DragEndEvent" where
  "drop_event dragged target = \<lparr>active_id = dragged, over_id = map_option droppable_id target\<rparr>"

text \<open>The column a drop target belongs to: a column itself, or the column of the card's task.\<close>

fun target_column :: "Task list \<Rightarrow> droppable \<Rightarrow> TaskStatus option" where
  "target_column ts (ColumnDrop s) = Some s"
| "target_column ts (CardDrop i) = map_option status (find (\<lambda>t. task_id t = i) ts)"

text \<open>
  The behaviour in the spec's words: "on drop, if the drop target's column differs from
  the task's current status, a status-update mutation fires; if dropped on its original
  column (or outside any column), no request is issued". The result is the list of
  requested (task, status) pairs.
\<close>

definition spec_drag_requests :: "Task list \<Rightarrow> string \<Rightarrow> droppable option \<Rightarrow> (string \<times> TaskStatus) list" where
  "spec_drag_requests ts dragged target =
     (case target of
        None \<Rightarrow> []
      | Some d \<Rightarrow>
          (case (find (\<lambda>t. task_id t = dragged) ts, target_column ts d) of
             (Some task, Some col) \<Rightarrow> if col = status task then [] else [(dragged, col)]
           | _ \<Rightarrow> []))"

definition requests_of :: "Task option \<times> mutate_call list \<Rightarrow> (string \<times> TaskStatus) list" where
  "requests_of r = map (\<lambda>c. (call_id c, call_status c)) (snd r)"

text \<open>A client whose task list was fetched a moment ago.\<close>

definition fresh_state :: client_state where
  "fresh_state =
     \<lparr>cache = [[''tasks''] \<mapsto> \<lparr>entry_data = [example_task ''a'' TODO 0], dataUpdatedAt = 100,
                               isInvalidated = False\<rparr>],
      toasts = []\<rparr>"

section \<open>Logging time (the TaskCard component, handleAddTime)\<close>

text \<open>
  \<^verbatim>\<open>parseInt(string)\<close> with no radix, step by step as the language defines it: leading
  white space is dropped; a sign is read and removed; with a prefix \<^verbatim>\<open>0x\<close> or \<^verbatim>\<open>0X\<close>
  the radix is 16 and the prefix is removed, else the radix is 10; the longest prefix of
  digits of that radix is taken, whatever follows is ignored; with no digit the result is
  \<^verbatim>\<open>NaN\<close>, here \<open>None\<close>; else it is the integer the digits denote, with the sign. The
  result is a JavaScript number; the model keeps the exact integer, which has the same
  sign. The white space is that of the code units the model's characters cover.
\<close>

definition is_ws :: "char \<Rightarrow> bool" where
  "is_ws c = (c \<in> set [CHR 0x09, CHR 0x0A, CHR 0x0B, CHR 0x0C, CHR 0x0D, CHR 0x20, CHR 0xA0])"

definition radix_digit_value :: "char \<Rightarrow> nat option" where
  "radix_digit_value c =
     (let n = (of_char c :: nat)
      in if 48 \<le> n \<and> n \<le> 57 then Some (n - 48)
         else if 97 \<le> n \<and> n \<le> 122 then Some (n - 87)
         else if 65 \<le> n \<and> n \<le> 90 then Some (n - 55)
         else None)"

definition is_radix_digit :: "nat \<Rightarrow> char \<Rightarrow> bool" where
  "is_radix_digit R c = (case radix_digit_value c of None \<Rightarrow> False | Some v \<Rightarrow> v < R)"

definition radix_value :: "nat \<Rightarrow> string \<Rightarrow> nat" where
  "radix_value R Z =
     foldl (\<lambda>acc c. R * acc + (case radix_digit_value c of None \<Rightarrow> 0 | Some v \<Rightarrow> v)) 0 Z"

definition parseInt :: "string \<Rightarrow> int option" where
  "parseInt inputString =
     (let S = dropWhile is_ws inputString;
          sign = (if S \<noteq> [] \<and> hd S = CHR ''-'' then - 1 else (1 :: int));
          S1 = (if S \<noteq> [] \<and> (hd S = CHR ''+'' \<or> hd S = CHR ''-'') then tl S else S);
          hex = (2 \<le> length S1 \<and> (take 2 S1 = ''0x'' \<or> take 2 S1 = ''0X''));
          R = (if hex then 16 else 10);
          S2 = (if hex then drop 2 S1 else S1);
          Z = takeWhile (is_radix_digit R) S2
      in if Z = [] then None else Some (sign * int (radix_value R Z)))"

text \<open>
  The form of the card: the text of the minutes field and whether the field is shown.
  \<^verbatim>\<open>
  const minutes = parseInt(timeInput);
  if (minutes > 0) {
    addTime.mutate({ id: task.id, minutes });
    setTimeInput('');
    setShowTimeInput(false);
  }
  \<close>
  The result is the list of add-time mutations started, each the task and the minutes,
  and the form afterwards. \<^verbatim>\<open>NaN > 0\<close> is false.
\<close>

record time_form =
  timeInput :: string
  showTimeInput :: bool

definition handleAddTime :: "Task \<Rightarrow> time_form \<Rightarrow> (string \<times> int) list \<times> time_form" where
  "handleAddTime task form =
     (case parseInt (timeInput form) of
        None \<Rightarrow> ([], form)
      | Some minutes \<Rightarrow>
          if minutes > 0
          then ([(task_id task, minutes)], \<lparr>timeInput = '''', showTimeInput = False\<rparr>)
          else ([], form))"

text \<open>
  The card of the Kanban board has the same handler
  (components/Kanban/KanbanTaskCard.tsx, \<^verbatim>\<open>handleAddTime\<close>), which also shows a
  notification at once, before the request has returned.
\<close>

definition KanbanTaskCard_handleAddTime ::
  "Task \<Rightarrow> time_form \<Rightarrow> ((string \<times> int) list \<times> time_form) \<times> effect list" where
  "KanbanTaskCard_handleAddTime task form =
     (case parseInt (timeInput form) of
        None \<Rightarrow> (([], form), [])
      | Some minutes \<Rightarrow>
          if minutes > 0
          then (([(task_id task, minutes)], \<lparr>timeInput = '''', showTimeInput = False\<rparr>),
                [ToastSuccess (''Added '' @ show_int minutes @ '' minutes to task'')])
          else (([], form), []))"

text \<open>
  The add-time request of the API client for a started mutation
  (lib/api.ts, \<^verbatim>\<open>addTimeToTask\<close>): a POST to \<^verbatim>\<open>/tasks/{id}/time\<close>.
\<close>

definition add_time_requests :: "(string \<times> int) list \<times> time_form \<Rightarrow> (string \<times> string \<times> int) list" where
  "add_time_requests r = map (\<lambda>(i, m). (''POST'', ''/tasks/'' @ i @ ''/time'', m)) (fst r)"

text \<open>
  What the handler can be given. The state \<^verbatim>\<open>timeInput\<close> starts empty and is written
  in two places only: from the value of the minutes field, an
  \<^verbatim>\<open><input type="number">\<close>, on every change
  (\<^verbatim>\<open>onChange={(e) => setTimeInput(e.target.value)}\<close>), and back to the empty text. The
  value of such a field is the empty text, when the field is empty or holds what is no
  number, or a number in the grammar of HTML's valid floating-point numbers: an optional
  minus sign; digits, or a point and digits, or both; an optional exponent, \<^verbatim>\<open>e\<close> or
  \<^verbatim>\<open>E\<close> with an optional sign and digits. The grammar is taken a little wider here:
  the digits after a point may be missing.
\<close>

definition is_dec_digit :: "char \<Rightarrow> bool" where
  "is_dec_digit c = is_radix_digit 10 c"

definition exponent_ok :: "string \<Rightarrow> bool" where
  "exponent_ok r =
     (r = [] \<or>
      ((hd r = CHR ''e'' \<or> hd r = CHR ''E'') \<and>
       (let r1 = tl r;
            r2 = (if r1 \<noteq> [] \<and> (hd r1 = CHR ''+'' \<or> hd r1 = CHR ''-'') then tl r1 else r1)
        in r2 \<noteq> [] \<and> list_all is_dec_digit r2)))"

definition has_minus :: "string \<Rightarrow> bool" where
  "has_minus s = (s \<noteq> [] \<and> hd s = CHR ''-'')"

definition unsigned_part :: "string \<Rightarrow> string" where
  "unsigned_part s = (if has_minus s then tl s else s)"

definition integer_digits :: "string \<Rightarrow> string" where
  "integer_digits s = takeWhile is_dec_digit (unsigned_part s)"

definition after_integer :: "string \<Rightarrow> string" where
  "after_integer s = dropWhile is_dec_digit (unsigned_part s)"

definition has_point :: "string \<Rightarrow> bool" where
  "has_point s = (after_integer s \<noteq> [] \<and> hd (after_integer s) = CHR ''.'')"

definition fraction_digits :: "string \<Rightarrow> string" where
  "fraction_digits s = (if has_point s then takeWhile is_dec_digit (tl (after_integer s)) else [])"

definition after_fraction :: "string \<Rightarrow> string" where
  "after_fraction s =
     (if has_point s then dropWhile is_dec_digit (tl (after_integer s)) else after_integer s)"

definition valid_number :: "string \<Rightarrow> bool" where
  "valid_number s =
     ((integer_digits s \<noteq> [] \<or> fraction_digits s \<noteq> []) \<and> exponent_ok (after_fraction s))"

definition number_field_value :: "string \<Rightarrow> bool" where
  "number_field_value s = (s = [] \<or> valid_number s)"

text \<open>
  The input is non-numeric when it is no number: for a value of the field, when it is
  empty. The number a valid text writes is, but for the sign, its mantissa, the integer
  that the digits before and after the point write together, times a power of ten; so it
  is non-positive exactly when the text has the minus sign or the mantissa is zero.
\<close>

definition non_numeric :: "string \<Rightarrow> bool" where
  "non_numeric s = (\<not> valid_number s)"

definition mantissa :: "string \<Rightarrow> nat" where
  "mantissa s = radix_value 10 (integer_digits s @ fraction_digits s)"

definition non_positive :: "string \<Rightarrow> bool" where
  "non_positive s = (valid_number s \<and> (has_minus s \<or> mantissa s = 0))"

section \<open>The API client (lib/api.ts)\<close>

text \<open>
  JSON values. A number stands as the text the language writes it with
  (\<^verbatim>\<open>Number::toString\<close>), which tells the numbers apart: zero is \<^verbatim>\<open>0\<close>, and a
  large number has its exponent notation. An object is the list of its own properties,
  each key once.
\<close>

datatype json =
    JNull
  | JBool bool
  | JNum string
  | JStr string
  | JArr "json list"
  | JObj "(string \<times> json) list"

text \<open>Truthiness, as \<^verbatim>\<open>||\<close> and \<^verbatim>\<open>if\<close> test it. A missing property is \<^verbatim>\<open>undefined\<close>, falsy.\<close>

fun truthy :: "json \<Rightarrow> bool" where
  "truthy JNull = False"
| "truthy (JBool b) = b"
| "truthy (JNum n) = (n \<noteq> ''0'')"
| "truthy (JStr s) = (s \<noteq> [])"
| "truthy (JArr _) = True"
| "truthy (JObj _) = True"

text \<open>
  \<^verbatim>\<open>new Error(value)\<close> takes the string of the value for its message: a string as it
  is, a number as the language writes it, an array as its elements' strings joined by
  commas (with nothing for \<^verbatim>\<open>null\<close>), an object as \<^verbatim>\<open>[object Object]\<close>. An object
  with an own property \<^verbatim>\<open>toString\<close> has no string: the property, which is not
  callable, hides the inherited method, the inherited \<^verbatim>\<open>valueOf\<close> (or an own property
  of that name) gives no primitive value, and the conversion throws a \<^verbatim>\<open>TypeError\<close>;
  so does the conversion of an array that holds such an object. \<open>None\<close> is that throw.
\<close>

fun join_commas :: "string list \<Rightarrow> string" where
  "join_commas [] = []"
| "join_commas [x] = x"
| "join_commas (x # y # ys) = x @ '','' @ join_commas (y # ys)"

fun js_toString :: "json \<Rightarrow> string option" where
  "js_toString JNull = Some ''null''"
| "js_toString (JBool b) = Some (if b then ''true'' else ''false'')"
| "js_toString (JNum n) = Some n"
| "js_toString (JStr s) = Some s"
| "js_toString (JArr xs) =
     map_option join_commas
       (those (map (\<lambda>x. if x = JNull then Some [] else js_toString x) xs))"
| "js_toString (JObj kvs) =
     (if map_of kvs ''toString'' = None then Some ''[object Object]'' else None)"

text \<open>
  What can be thrown: an \<^verbatim>\<open>Error\<close> with its message, the \<^verbatim>\<open>SyntaxError\<close> of a body
  that is not JSON, the \<^verbatim>\<open>TypeError\<close> of a failed fetch, of a property read on
  \<^verbatim>\<open>null\<close> or of a value with no string, and a value that is no \<^verbatim>\<open>Error\<close> at all.
\<close>

datatype js_exception = Error string | SyntaxError | TypeError | NotAnError json

fun instanceof_Error :: "js_exception \<Rightarrow> bool" where
  "instanceof_Error (NotAnError _) = False"
| "instanceof_Error _ = True"

text \<open>
  A response: its status code and status text, and its body as \<^verbatim>\<open>JSON.parse\<close> reads
  it, \<open>None\<close> when the text is not JSON (an empty body is not). Both \<^verbatim>\<open>response.json()\<close>
  and \<^verbatim>\<open>JSON.parse(await response.text())\<close> read the body that way.
  \<^verbatim>\<open>response.ok\<close> is true for the statuses 200 to 299.
\<close>

record response =
  resp_status :: nat
  statusText :: string
  body_json :: "json option"

definition ok :: "response \<Rightarrow> bool" where
  "ok r = (200 \<le> resp_status r \<and> resp_status r \<le> 299)"

text \<open>
  Reading a property of a parsed body: on \<^verbatim>\<open>null\<close> the read throws; an object gives
  the property or \<^verbatim>\<open>undefined\<close>; no other JSON value has a property \<^verbatim>\<open>detail\<close> or
  \<^verbatim>\<open>message\<close>.
\<close>

fun get_property :: "json \<Rightarrow> string \<Rightarrow> js_exception + json option" where
  "get_property JNull k = Inl TypeError"
| "get_property (JObj kvs) k = Inr (map_of kvs k)"
| "get_property _ k = Inr None"

text \<open>The value of a property when it is truthy; \<^verbatim>\<open>undefined\<close> and falsy values give nothing.\<close>

definition truthy_property :: "json option \<Rightarrow> json option" where
  "truthy_property p = (case p of None \<Rightarrow> None | Some v \<Rightarrow> if truthy v then Some v else None)"

definition default_message :: "response \<Rightarrow> string" where
  "default_message r = ''HTTP '' @ show_nat (resp_status r) @ '': '' @ statusText r"

text \<open>
  \<^verbatim>\<open>
  let errorMessage = `HTTP ${response.status}: ${response.statusText}`;
  try {
    const errorData = JSON.parse(errorText);
    errorMessage = errorData.detail || errorData.message || errorMessage;
  } catch { }
  throw new Error(errorMessage);
  \<close>
  \<^verbatim>\<open>errorData.message\<close> is read only when \<^verbatim>\<open>errorData.detail\<close> is falsy. The
  variable holds the default text or the value of one of the two fields, of any JSON
  type. \<^verbatim>\<open>new Error\<close> stands after the inner \<^verbatim>\<open>try\<close>: when the value has no string,
  the \<^verbatim>\<open>TypeError\<close> of the conversion is what is thrown.
\<close>

definition errorMessage :: "response \<Rightarrow> json" where
  "errorMessage r =
     (case body_json r of
        None \<Rightarrow> JStr (default_message r)
      | Some errorData \<Rightarrow>
          (case get_property errorData ''detail'' of
             Inl _ \<Rightarrow> JStr (default_message r)
           | Inr detail \<Rightarrow>
               (case truthy_property detail of
                  Some d \<Rightarrow> d
                | None \<Rightarrow>
                    (case get_property errorData ''message'' of
                       Inl _ \<Rightarrow> JStr (default_message r)
                     | Inr message \<Rightarrow>
                         (case truthy_property message of
                            Some m \<Rightarrow> m
                          | None \<Rightarrow> JStr (default_message r))))))"

definition new_Error :: "json \<Rightarrow> js_exception" where
  "new_Error v = (case js_toString v of None \<Rightarrow> TypeError | Some s \<Rightarrow> Error s)"

text \<open>
  Client-side storage and the headers (\<^verbatim>\<open>getHeaders\<close>): the content type always, the
  bearer token when \<^verbatim>\<open>localStorage.getItem('access_token')\<close> is truthy, that is, a
  string that is not empty.
\<close>

type_synonym storage = "string \<rightharpoonup> string"
type_synonym headers = "string \<rightharpoonup> string"

definition getHeaders :: "storage \<Rightarrow> headers" where
  "getHeaders localStorage =
     (let hs = [''Content-Type'' \<mapsto> ''application/json'']
      in case localStorage ''access_token'' of
           None \<Rightarrow> hs
         | Some token \<Rightarrow> if token \<noteq> [] then hs(''Authorization'' \<mapsto> ''Bearer '' @ token) else hs)"

text \<open>
  The options of a request, and the configuration handed to \<^verbatim>\<open>fetch\<close>. The body is the
  value given to \<^verbatim>\<open>JSON.stringify\<close>.
  \<^verbatim>\<open>
  const url = `${this.baseURL}${endpoint}`;
  const config = { ...options, headers: { ...this.getHeaders(), ...options.headers } };
  \<close>
  The headers of the options, if any, come last and override.
\<close>

record request_init =
  req_method :: "string option"
  req_body :: "json option"
  req_headers :: "headers option"

definition no_options :: request_init where
  "no_options = \<lparr>req_method = None, req_body = None, req_headers = None\<rparr>"

definition request_config :: "storage \<Rightarrow> request_init \<Rightarrow> request_init" where
  "request_config localStorage options =
     options\<lparr>req_headers :=
       Some (getHeaders localStorage ++ (case req_headers options of None \<Rightarrow> Map.empty | Some hs \<Rightarrow> hs))\<rparr>"

text \<open>
  What \<^verbatim>\<open>fetch\<close> did: it rejected (the network failed) or it resolved with a response.
  \<^verbatim>\<open>request\<close> takes the network as a function from the URL and the configuration.
  \<^verbatim>\<open>
  try {
    const response = await fetch(url, config);
    if (!response.ok) { ... throw new Error(errorMessage); }
    return await response.json();
  } catch (error) {
    if (error instanceof Error) throw error;
    throw new Error('An unexpected error occurred');
  }
  \<close>
\<close>

datatype fetch_result = Rejected js_exception | Resolved response

definition request_body :: "fetch_result \<Rightarrow> js_exception + json" where
  "request_body fr =
     (case fr of
        Rejected e \<Rightarrow> Inl e
      | Resolved r \<Rightarrow>
          if \<not> ok r then Inl (new_Error (errorMessage r))
          else (case body_json r of None \<Rightarrow> Inl SyntaxError | Some v \<Rightarrow> Inr v))"

definition request ::
  "string \<Rightarrow> storage \<Rightarrow> (string \<Rightarrow> request_init \<Rightarrow> fetch_result) \<Rightarrow> string \<Rightarrow> request_init
     \<Rightarrow> js_exception + json" where
  "request baseURL localStorage fetch endpoint options =
     (let url = baseURL @ endpoint;
          config = request_config localStorage options
      in case request_body (fetch url config) of
           Inl error \<Rightarrow> if instanceof_Error error then Inl error
                        else Inl (Error ''An unexpected error occurred'')
         | Inr v \<Rightarrow> Inr v)"

text \<open>
  The operations of the client that go through \<^verbatim>\<open>request\<close>, each with its endpoint
  and options. None passes headers. (\<^verbatim>\<open>login\<close> calls \<^verbatim>\<open>fetch\<close> itself, with form
  data, and is not among them.) The objects handed to \<^verbatim>\<open>JSON.stringify\<close> unchanged
  are JSON values here.
\<close>

record CreateTaskData =
  new_title :: string
  new_description :: "string option"
  new_assigned_to :: "string option"

datatype api_operation =
    register json
  | getCurrentUser
  | updateProfile string string
  | getTasks
  | getTask string
  | createTask CreateTaskData
  | updateTask string json
  | updateTaskStatus string TaskStatus
  | addTimeToTask string int
  | deleteTask string
  | getAllTasks
  | getAllUsers
  | createUser json
  | updateUser string json
  | deleteUser string
  | suggestTaskDescription string "string option"
  | getDailyPlan

definition with_body :: "string \<Rightarrow> json \<Rightarrow> request_init" where
  "with_body m b = \<lparr>req_method = Some m, req_body = Some b, req_headers = None\<rparr>"

definition method_only :: "string \<Rightarrow> request_init" where
  "method_only m = \<lparr>req_method = Some m, req_body = None, req_headers = None\<rparr>"

text \<open>
  \<^verbatim>\<open>createTask\<close> sends the title, \<^verbatim>\<open>data.description || null\<close>, and the assignee when
  it is set and not blank, else \<^verbatim>\<open>null\<close>.
\<close>

definition transformedData :: "CreateTaskData \<Rightarrow> json" where
  "transformedData d =
     JObj [(''title'', JStr (new_title d)),
           (''description'',
              (case new_description d of
                 None \<Rightarrow> JNull
               | Some t \<Rightarrow> if t \<noteq> [] then JStr t else JNull)),
           (''assigned_to'',
              (case new_assigned_to d of
                 None \<Rightarrow> JNull
               | Some a \<Rightarrow> if a \<noteq> [] \<and> \<not> list_all is_ws a then JStr a else JNull))]"

fun operation_request :: "api_operation \<Rightarrow> string \<times> request_init" where
  "operation_request (register d) = (''/auth/register'', with_body ''POST'' d)"
| "operation_request getCurrentUser = (''/auth/me'', no_options)"
| "operation_request (updateProfile full_name email) =
     (''/auth/me'', with_body ''PUT'' (JObj [(''full_name'', JStr full_name), (''email'', JStr email)]))"
| "operation_request getTasks = (''/tasks'', no_options)"
| "operation_request (getTask i) = (''/tasks/'' @ i, no_options)"
| "operation_request (createTask d) = (''/tasks'', with_body ''POST'' (transformedData d))"
| "operation_request (updateTask i d) = (''/tasks/'' @ i, with_body ''PUT'' d)"
| "operation_request (updateTaskStatus i s) =
     (''/tasks/'' @ i @ ''/status'', with_body ''PATCH'' (JObj [(''status'', JStr s)]))"
| "operation_request (addTimeToTask i minutes) =
     (''/tasks/'' @ i @ ''/time'', with_body ''POST'' (JObj [(''minutes'', JNum (show_int minutes))]))"
| "operation_request (deleteTask i) = (''/tasks/'' @ i, method_only ''DELETE'')"
| "operation_request getAllTasks = (''/admin/tasks'', no_options)"
| "operation_request getAllUsers = (''/users'', no_options)"
| "operation_request (createUser d) = (''/users'', with_body ''POST'' d)"
| "operation_request (updateUser userId d) = (''/users/'' @ userId, with_body ''PUT'' d)"
| "operation_request (deleteUser userId) = (''/users/'' @ userId, method_only ''DELETE'')"
| "operation_request (suggestTaskDescription t context) =
     (''/ai/suggest-description'',
      with_body ''POST''
        (JObj ((''title'', JStr t) # (case context of None \<Rightarrow> [] | Some c \<Rightarrow> [(''context'', JStr c)]))))"
| "operation_request getDailyPlan = (''/ai/daily-plan'', no_options)"

definition api_call ::
  "string \<Rightarrow> storage \<Rightarrow> (string \<Rightarrow> request_init \<Rightarrow> fetch_result) \<Rightarrow> api_operation
     \<Rightarrow> js_exception + json" where
  "api_call baseURL localStorage fetch op =
     request baseURL localStorage fetch (fst (operation_request op)) (snd (operation_request op))"

text \<open>The headers a call of an operation hands to \<^verbatim>\<open>fetch\<close>.\<close>

definition sent_headers :: "storage \<Rightarrow> api_operation \<Rightarrow> headers" where
  "sent_headers localStorage op =
     (case req_headers (request_config localStorage (snd (operation_request op))) of
        None \<Rightarrow> Map.empty
      | Some hs \<Rightarrow> hs)"

text \<open>The value of a field of an object when it is truthy.\<close>

definition truthy_field :: "(string \<times> json) list \<Rightarrow> string \<Rightarrow> json option" where
  "truthy_field kvs k = truthy_property (map_of kvs k)"

fun is_object :: "json \<Rightarrow> bool" where
  "is_object (JObj _) = True"
| "is_object _ = False"

text \<open>Responses and a network for the examples.\<close>

definition no_content :: response where
  "no_content = \<lparr>resp_status = 204, statusText = ''No Content'', body_json = None\<rparr>"

definition bad_request :: "json option \<Rightarrow> response" where
  "bad_request b = \<lparr>resp_status = 400, statusText = ''Bad Request'', body_json = b\<rparr>"

definition ok_response :: "json \<Rightarrow> response" where
  "ok_response b = \<lparr>resp_status = 200, statusText = ''OK'', body_json = Some b\<rparr>"

definition answering :: "response \<Rightarrow> string \<Rightarrow> request_init \<Rightarrow> fetch_result" where
  "answering r url config = Resolved r"

definition API_BASE :: string where
  "API_BASE = ''http://localhost:8000''"

section \<open>The retry configuration (the application's root component, queryClient, and the hooks)\<close>

text \<open>
  \<^verbatim>\<open>
  const queryClient = new QueryClient({
    defaultOptions: { queries: { staleTime: 1000 * 60 * 5, retry: 1 } },
  });
  \<close>
  The default options have no \<^verbatim>\<open>mutations\<close> entry.
\<close>

record query_defaults =
  default_staleTime :: "nat option"
  default_retry :: "nat option"

record default_options =
  queries :: "query_defaults option"
  mutations :: "query_defaults option"

definition queryClient_defaultOptions :: default_options where
  "queryClient_defaultOptions =
     \<lparr>queries = Some \<lparr>default_staleTime = Some (1000 * 60 * 5), default_retry = Some 1\<rparr>,
      mutations = None\<rparr>"

text \<open>
  The read queries of the repository and the \<^verbatim>\<open>retry\<close> option each passes: the hooks
  for tasks, for the AI features and for users, and the queries written in the admin
  components.
\<close>

datatype query_site =
    useTasks
  | useTask string
  | useDailyPlan
  | useUsers
  | AdminAnalytics_allTasks
  | AdminAnalytics_allUsers
  | AdminPanel_adminTasks

fun query_retry_option :: "query_site \<Rightarrow> nat option" where
  "query_retry_option useDailyPlan = Some 1"
| "query_retry_option _ = None"

text \<open>The mutations of the repository; none passes a \<^verbatim>\<open>retry\<close> option.\<close>

datatype mutation_site =
    TaskMutation task_hook
  | useCreateUser
  | useUpdateUser
  | useDeleteUser
  | useSuggestTaskDescription
  | useRefreshDailyPlan

fun mutation_retry_option :: "mutation_site \<Rightarrow> nat option" where
  "mutation_retry_option (TaskMutation h) = hook_retry h"
| "mutation_retry_option _ = None"

text \<open>
  Modelled from the spec: the caching library is not part of the repository. An option of
  the hook wins over the client's default, and that over the library's own default; "a
  default single-retry configured at the cache layer for read queries; mutations are not
  automatically retried": without configuration the library retries a query three times
  and a mutation never.
\<close>

definition library_query_retry :: nat where
  "library_query_retry = 3"

definition library_mutation_retry :: nat where
  "library_mutation_retry = 0"

definition resolve_retry :: "nat \<Rightarrow> query_defaults option \<Rightarrow> nat option \<Rightarrow> nat" where
  "resolve_retry library_default client_defaults own =
     (case own of
        Some n \<Rightarrow> n
      | None \<Rightarrow>
          (case client_defaults of
             None \<Rightarrow> library_default
           | Some ds \<Rightarrow> (case default_retry ds of None \<Rightarrow> library_default | Some n \<Rightarrow> n)))"

definition query_retry :: "query_site \<Rightarrow> nat" where
  "query_retry q =
     resolve_retry library_query_retry (queries queryClient_defaultOptions) (query_retry_option q)"

definition mutation_retry :: "mutation_site \<Rightarrow> nat" where
  "mutation_retry m =
     resolve_retry library_mutation_retry (mutations queryClient_defaultOptions)
       (mutation_retry_option m)"

text \<open>
  Modelled from the spec: running a function with a number of retries. \<open>succeeds i\<close> tells
  whether run \<open>i\<close> succeeds; the result is the number of runs made and whether the last
  succeeded.
\<close>

fun run_with_retry :: "nat \<Rightarrow> (nat \<Rightarrow> bool) \<Rightarrow> nat \<Rightarrow> nat \<times> bool" where
  "run_with_retry 0 succeeds i = (Suc i, succeeds i)"
| "run_with_retry (Suc k) succeeds i =
     (if succeeds i then (Suc i, True) else run_with_retry k succeeds (Suc i))"

section \<open>Facts about the statuses\<close>

lemma statuses_distinct:
  "TODO \<noteq> IN_PROGRESS" "TODO \<noteq> DONE" "IN_PROGRESS \<noteq> DONE"
  "IN_PROGRESS \<noteq> TODO" "DONE \<noteq> TODO" "DONE \<noteq> IN_PROGRESS"
  by (simp_all add: TODO_def IN_PROGRESS_def DONE_def)

text \<open>
  C2. The advance function maps TODO to IN_PROGRESS, IN_PROGRESS to DONE and DONE to
  TODO, and applied three times it returns each of the three statuses to itself.
\<close>

theorem getNextStatus_cycle:
  "getNextStatus TODO = IN_PROGRESS \<and>
   getNextStatus IN_PROGRESS = DONE \<and>
   getNextStatus DONE = TODO \<and>
   (\<forall>s \<in> {TODO, IN_PROGRESS, DONE}.
      getNextStatus (getNextStatus (getNextStatus s)) = s \<and>
      (getNextStatus ^^ 3) s = s)"
  by (simp add: getNextStatus_def statuses_distinct numeral_3_eq_3)

theorem getNextStatus_cycle_witness:
  "IN_PROGRESS \<in> {TODO, IN_PROGRESS, DONE} \<and>
   getNextStatus (getNextStatus (getNextStatus IN_PROGRESS)) = IN_PROGRESS \<and>
   (getNextStatus ^^ 3) IN_PROGRESS = IN_PROGRESS"
  using getNextStatus_cycle by blast

section \<open>The columns partition the task list\<close>

lemma filters_partition_mset:
  assumes "\<forall>t \<in> set ts. status t \<in> {TODO, IN_PROGRESS, DONE}"
  shows "mset (filter (\<lambda>task. status task = TODO) ts)
       + mset (filter (\<lambda>task. status task = IN_PROGRESS) ts)
       + mset (filter (\<lambda>task. status task = DONE) ts) = mset ts"
  using assms
proof (induction ts)
  case Nil
  show ?case by simp
next
  case (Cons t ts)
  then have rest: "mset (filter (\<lambda>task. status task = TODO) ts)
       + mset (filter (\<lambda>task. status task = IN_PROGRESS) ts)
       + mset (filter (\<lambda>task. status task = DONE) ts) = mset ts"
    by simp
  from Cons.prems have "status t = TODO \<or> status t = IN_PROGRESS \<or> status t = DONE"
    by simp
  then show ?case
    using rest by (auto simp: statuses_distinct)
qed

lemma filters_partition_length:
  assumes "\<forall>t \<in> set ts. status t \<in> {TODO, IN_PROGRESS, DONE}"
  shows "length (filter (\<lambda>task. status task = TODO) ts)
       + length (filter (\<lambda>task. status task = IN_PROGRESS) ts)
       + length (filter (\<lambda>task. status task = DONE) ts) = length ts"
  using assms
proof (induction ts)
  case Nil
  show ?case by simp
next
  case (Cons t ts)
  then have rest: "length (filter (\<lambda>task. status task = TODO) ts)
       + length (filter (\<lambda>task. status task = IN_PROGRESS) ts)
       + length (filter (\<lambda>task. status task = DONE) ts) = length ts"
    by simp
  from Cons.prems have "status t = TODO \<or> status t = IN_PROGRESS \<or> status t = DONE"
    by simp
  then show ?case
    using rest by (auto simp: statuses_distinct)
qed

text \<open>
  C9. When every task of the list has one of the three statuses, the three column
  filters partition the list: a task is in the column of its status and in no other
  column, the columns together hold exactly the occurrences of the list, and the three
  column counts sum to the number of tasks.
\<close>

theorem tasksByStatus_partition:
  assumes "\<forall>t \<in> set ts. status t \<in> {TODO, IN_PROGRESS, DONE}"
  shows "(\<forall>t \<in> set ts.
            t \<in> set (column_for (tasksByStatus (Some ts)) (status t)) \<and>
            (\<forall>s. s \<noteq> status t \<longrightarrow> t \<notin> set (column_for (tasksByStatus (Some ts)) s))) \<and>
         mset (col_TODO (tasksByStatus (Some ts)))
           + mset (col_IN_PROGRESS (tasksByStatus (Some ts)))
           + mset (col_DONE (tasksByStatus (Some ts))) = mset ts \<and>
         sum_list (column_counts (tasksByStatus (Some ts))) = length ts"
proof (intro conjI ballI)
  fix t assume "t \<in> set ts"
  with assms have "status t = TODO \<or> status t = IN_PROGRESS \<or> status t = DONE"
    by simp
  with \<open>t \<in> set ts\<close>
  show "t \<in> set (column_for (tasksByStatus (Some ts)) (status t))"
    by (auto simp: column_for_def tasksByStatus_def statuses_distinct)
next
  fix t assume "t \<in> set ts"
  show "\<forall>s. s \<noteq> status t \<longrightarrow> t \<notin> set (column_for (tasksByStatus (Some ts)) s)"
    by (simp add: column_for_def tasksByStatus_def)
next
  show "mset (col_TODO (tasksByStatus (Some ts)))
           + mset (col_IN_PROGRESS (tasksByStatus (Some ts)))
           + mset (col_DONE (tasksByStatus (Some ts))) = mset ts"
    using filters_partition_mset [OF assms] by (simp add: tasksByStatus_def)
next
  show "sum_list (column_counts (tasksByStatus (Some ts))) = length ts"
    using filters_partition_length [OF assms]
    by (simp add: column_counts_def tasksByStatus_def)
qed

theorem tasksByStatus_partition_witness:
  "set [example_task ''a'' TODO 0, example_task ''b'' DONE 5, example_task ''c'' TODO 7]
     \<noteq> {} \<and>
   status (example_task ''a'' TODO 0) \<in> {TODO, IN_PROGRESS, DONE} \<and>
   status (example_task ''b'' DONE 5) \<in> {TODO, IN_PROGRESS, DONE} \<and>
   status (example_task ''c'' TODO 7) \<in> {TODO, IN_PROGRESS, DONE} \<and>
   example_task ''b'' DONE 5 \<in> set (column_for (tasksByStatus
     (Some [example_task ''a'' TODO 0, example_task ''b'' DONE 5, example_task ''c'' TODO 7]))
     DONE) \<and>
   example_task ''b'' DONE 5 \<notin> set (column_for (tasksByStatus
     (Some [example_task ''a'' TODO 0, example_task ''b'' DONE 5, example_task ''c'' TODO 7]))
     TODO) \<and>
   sum_list (column_counts (tasksByStatus
     (Some [example_task ''a'' TODO 0, example_task ''b'' DONE 5, example_task ''c'' TODO 7])))
     = 3"
proof -
  let ?ts = "[example_task ''a'' TODO 0, example_task ''b'' DONE 5, example_task ''c'' TODO 7]"
  have h: "\<forall>t \<in> set ?ts. status t \<in> {TODO, IN_PROGRESS, DONE}"
    by (simp add: example_task_def)
  have st: "status (example_task ''b'' DONE 5) = DONE"
    by (simp add: example_task_def)
  have mem: "example_task ''b'' DONE 5 \<in> set ?ts" by simp
  note p = tasksByStatus_partition [OF h]
  from p mem have a: "example_task ''b'' DONE 5 \<in> set (column_for (tasksByStatus (Some ?ts))
      (status (example_task ''b'' DONE 5)))"
    by blast
  from p mem have b: "TODO \<noteq> status (example_task ''b'' DONE 5) \<longrightarrow>
      example_task ''b'' DONE 5 \<notin> set (column_for (tasksByStatus (Some ?ts)) TODO)"
    by blast
  from p have c: "sum_list (column_counts (tasksByStatus (Some ?ts))) = length ?ts"
    by blast
  show ?thesis
    using a b c h by (simp add: st statuses_distinct)
qed

section \<open>Rendering loses nothing\<close>

lemma digit_value_digit_char: "d < 10 \<Longrightarrow> digit_value (digit_char d) = d"
proof -
  assume "d < 10"
  then have "d \<in> {0,1,2,3,4,5,6,7,8,9}" by auto
  then show ?thesis
    by (auto simp: digit_value_def digit_char_def)
qed

lemma read_nat_snoc: "read_nat (ds @ [c]) = 10 * read_nat ds + digit_value c"
  by (simp add: read_nat_def)

lemma read_show_nat: "read_nat (show_nat n) = n"
proof (induction n rule: show_nat.induct)
  case (1 n)
  show ?case
  proof (cases "n < 10")
    case True
    then show ?thesis
      by (subst show_nat.simps) (simp add: read_nat_def digit_value_digit_char)
  next
    case False
    with 1 have ih: "read_nat (show_nat (n div 10)) = n div 10" by simp
    have "read_nat (show_nat n) =
          10 * read_nat (show_nat (n div 10)) + digit_value (digit_char (n mod 10))"
      using False by (subst show_nat.simps) (simp add: read_nat_snoc)
    then show ?thesis
      using ih by (simp add: digit_value_digit_char)
  qed
qed

lemma show_nat_inj: "show_nat a = show_nat b \<Longrightarrow> a = b"
  by (metis read_show_nat)

lemma digit_char_not_minus: "d < 10 \<Longrightarrow> digit_char d \<noteq> CHR ''-''"
proof -
  assume "d < 10"
  then have "d \<in> {0,1,2,3,4,5,6,7,8,9}" by auto
  then show ?thesis
    by (auto simp: digit_char_def)
qed

lemma hd_show_nat: "show_nat n \<noteq> [] \<and> hd (show_nat n) \<noteq> CHR ''-''"
proof (induction n rule: show_nat.induct)
  case (1 n)
  show ?case
  proof (cases "n < 10")
    case True
    then show ?thesis
      by (subst (1 2) show_nat.simps) (simp add: digit_char_not_minus)
  next
    case False
    with 1 have ih: "show_nat (n div 10) \<noteq> [] \<and> hd (show_nat (n div 10)) \<noteq> CHR ''-''"
      by simp
    show ?thesis
      using False ih by (subst (1 2) show_nat.simps) simp
  qed
qed

lemma show_int_inj: "show_int a = show_int b \<Longrightarrow> a = b"
proof -
  assume eq: "show_int a = show_int b"
  have neg: "\<And>x y. CHR ''-'' # show_nat x \<noteq> show_nat y"
    using hd_show_nat by (metis list.sel(1))
  show ?thesis
  proof (cases "a < 0"; cases "b < 0")
    assume "a < 0" "b < 0"
    with eq have "nat (- a) = nat (- b)" by (simp add: show_int_def show_nat_inj)
    with \<open>a < 0\<close> \<open>b < 0\<close> show ?thesis by simp
  next
    assume "a < 0" "\<not> b < 0"
    with eq neg show ?thesis by (simp add: show_int_def)
  next
    assume "\<not> a < 0" "b < 0"
    with eq neg show ?thesis by (metis show_int_def)
  next
    assume "\<not> a < 0" "\<not> b < 0"
    with eq have "nat a = nat b" by (simp add: show_int_def show_nat_inj)
    with \<open>\<not> a < 0\<close> \<open>\<not> b < 0\<close> show ?thesis by simp
  qed
qed

section \<open>The handlers of the task mutations\<close>

lemma status_toast_kind:
  "\<not> is_cache_write (status_toast s)" "\<not> is_invalidation (status_toast s)"
  by (simp_all add: status_toast_def)

lemma onSuccess_invalidates_first:
  "\<exists>rest. onSuccess h d = InvalidateQueries [''tasks''] # rest \<and> filter is_cache_write rest = []"
  by (cases h; cases d) (simp_all add: status_toast_kind)

lemma onError_only_notifies:
  "\<exists>m. onError h = [ToastError m]"
  by (cases h) simp_all

lemma read_query_refetch: "must_refetch c q \<Longrightarrow> snd (read_query c q staleTime now)"
  by (simp add: must_refetch_def read_query_def split: option.splits)

lemma invalidateQueries_must_refetch: "prefix k q \<Longrightarrow> must_refetch (invalidateQueries k c) q"
  by (simp add: must_refetch_def invalidateQueries_def split: option.splits)

lemma apply_effect_keeps_must_refetch:
  "\<not> is_cache_write e \<Longrightarrow> must_refetch (cache st) q \<Longrightarrow> must_refetch (cache (apply_effect st e)) q"
  by (cases e) (auto simp: must_refetch_def invalidateQueries_def split: option.splits)

lemma apply_effects_keeps_must_refetch:
  "filter is_cache_write es = [] \<Longrightarrow> must_refetch (cache st) q \<Longrightarrow>
   must_refetch (cache (apply_effects st es)) q"
proof (induction es arbitrary: st)
  case Nil
  then show ?case by (simp add: apply_effects_def)
next
  case (Cons e es)
  from Cons.prems(1) have e: "\<not> is_cache_write e" and es: "filter is_cache_write es = []"
    by (auto split: if_splits)
  have "must_refetch (cache (apply_effect st e)) q"
    using e Cons.prems(2) by (rule apply_effect_keeps_must_refetch)
  then have "must_refetch (cache (apply_effects (apply_effect st e) es)) q"
    using es Cons.IH by blast
  then show ?case by (simp add: apply_effects_def)
qed

lemma apply_effects_append:
  "apply_effects st (xs @ ys) = apply_effects (apply_effects st xs) ys"
  by (simp add: apply_effects_def)

lemma apply_effects_Cons:
  "apply_effects st (x # xs) = apply_effects (apply_effect st x) xs"
  by (simp add: apply_effects_def)

text \<open>
  C1. For each of the five task mutation hooks and whatever the mutation returned, the
  \<^verbatim>\<open>onSuccess\<close> handler invalidates the \<^verbatim>\<open>['tasks']\<close> key (first of all it does),
  neither handler of the hook writes data into the cache, and after a successful
  mutation whose call-site callbacks write nothing into the cache either, the next read
  of the task collection (and of any query under that key) fetches from the network,
  however fresh the cached data is.
\<close>

theorem task_mutation_success_invalidates:
  assumes "filter is_cache_write (cb_onSuccess cb @ cb_onError cb) = []"
  shows "InvalidateQueries [''tasks''] \<in> set (onSuccess h d) \<and>
         hd (onSuccess h d) = InvalidateQueries [''tasks''] \<and>
         filter is_cache_write (onSuccess h d @ onError h) = [] \<and>
         snd (read_query (cache (settle st h cb (Inr d))) tasks_key staleTime now) \<and>
         snd (read_query (cache (settle st h cb (Inr d))) (tasks_key @ [i]) staleTime now)"
proof -
  obtain rest where os: "onSuccess h d = InvalidateQueries [''tasks''] # rest"
    and rest: "filter is_cache_write rest = []"
    using onSuccess_invalidates_first by blast
  obtain m where oe: "onError h = [ToastError m]"
    using onError_only_notifies by blast
  define after_handler where "after_handler =
    (if onSuccess_throws h d then onError h @ cb_onError cb else cb_onSuccess cb)"
  have nowrite: "filter is_cache_write (rest @ after_handler) = []"
    using rest assms oe by (simp add: after_handler_def)
  have settled: "settle st h cb (Inr d) =
      apply_effects (apply_effect st (InvalidateQueries [''tasks''])) (rest @ after_handler)"
    by (simp add: settle_def settle_effects_def os apply_effects_Cons after_handler_def)
  have inv: "\<And>q. prefix tasks_key q \<Longrightarrow>
      must_refetch (cache (apply_effect st (InvalidateQueries [''tasks'']))) q"
    by (simp add: tasks_key_def invalidateQueries_must_refetch)
  have after: "\<And>q. prefix tasks_key q \<Longrightarrow> must_refetch (cache (settle st h cb (Inr d))) q"
    unfolding settled using nowrite inv by (rule apply_effects_keeps_must_refetch)
  have r1: "snd (read_query (cache (settle st h cb (Inr d))) tasks_key staleTime now)"
    using after [of tasks_key] by (simp add: read_query_refetch)
  have r2: "snd (read_query (cache (settle st h cb (Inr d))) (tasks_key @ [i]) staleTime now)"
    using after [of "tasks_key @ [i]"] by (simp add: read_query_refetch)
  show ?thesis
    using os rest oe r1 r2 by simp
qed

theorem task_mutation_success_invalidates_witness:
  "filter is_cache_write
     (cb_onSuccess (dragEnd_callbacks DONE) @ cb_onError (dragEnd_callbacks DONE)) = [] \<and>
   \<not> snd (read_query (cache fresh_state) tasks_key useTasks_staleTime 101) \<and>
   snd (read_query
     (cache (settle fresh_state useUpdateTaskStatus (dragEnd_callbacks DONE)
        (Inr (TaskData (example_task ''a'' DONE 0)))))
     tasks_key useTasks_staleTime 101)"
proof -
  have h: "filter is_cache_write
     (cb_onSuccess (dragEnd_callbacks DONE) @ cb_onError (dragEnd_callbacks DONE)) = []"
    by (simp add: dragEnd_callbacks_def)
  have before: "\<not> snd (read_query (cache fresh_state) tasks_key useTasks_staleTime 101)"
    by (simp add: read_query_def fresh_state_def tasks_key_def useTasks_staleTime_def)
  show ?thesis
    using h before
      task_mutation_success_invalidates [OF h, of useUpdateTaskStatus
        "TaskData (example_task ''a'' DONE 0)" fresh_state useTasks_staleTime 101]
    by simp
qed

section \<open>A failed status update\<close>

lemma apply_effects_toasts_only:
  "apply_effects st [ToastError a] = st\<lparr>toasts := toasts st @ [Failure a]\<rparr>"
  "apply_effects st [ToastError a, ToastError b] = st\<lparr>toasts := toasts st @ [Failure a, Failure b]\<rparr>"
  by (simp_all add: apply_effects_def)

text \<open>
  C5. When a status-update mutation fails, from the drag-and-drop board or from the
  advance button, the only effects are error notifications: the hook's, then the call
  site's. No invalidation and no cache write happens, so the cache, and with it the task
  list the board displays, is what it was before the request; invalidation stands in the
  success handler only.
\<close>

theorem failed_status_update_keeps_state:
  "settle_effects useUpdateTaskStatus (dragEnd_callbacks newStatus) (Inl err) =
     [ToastError ''Failed to update status'', ToastError ''Failed to update task status''] \<and>
   settle_effects useUpdateTaskStatus no_callbacks (Inl err) =
     [ToastError ''Failed to update status''] \<and>
   filter (\<lambda>e. \<not> is_error_toast e)
     (settle_effects useUpdateTaskStatus (dragEnd_callbacks newStatus) (Inl err)) = [] \<and>
   filter is_invalidation (onError useUpdateTaskStatus) = [] \<and>
   filter is_cache_write (onError useUpdateTaskStatus) = [] \<and>
   filter is_invalidation (onSuccess useUpdateTaskStatus d) = [InvalidateQueries [''tasks'']] \<and>
   cache (settle st useUpdateTaskStatus (dragEnd_callbacks newStatus) (Inl err)) = cache st \<and>
   cache (settle st useUpdateTaskStatus no_callbacks (Inl err)) = cache st \<and>
   displayed_tasks (settle st useUpdateTaskStatus (dragEnd_callbacks newStatus) (Inl err)) =
     displayed_tasks st \<and>
   displayed_tasks (settle st useUpdateTaskStatus no_callbacks (Inl err)) = displayed_tasks st \<and>
   toasts (settle st useUpdateTaskStatus (dragEnd_callbacks newStatus) (Inl err)) =
     toasts st @ [Failure ''Failed to update status'', Failure ''Failed to update task status''] \<and>
   toasts (settle st useUpdateTaskStatus no_callbacks (Inl err)) =
     toasts st @ [Failure ''Failed to update status'']"
proof -
  have e1: "settle_effects useUpdateTaskStatus (dragEnd_callbacks newStatus) (Inl err) =
     [ToastError ''Failed to update status'', ToastError ''Failed to update task status'']"
    by (simp add: settle_effects_def dragEnd_callbacks_def)
  have e2: "settle_effects useUpdateTaskStatus no_callbacks (Inl err) =
     [ToastError ''Failed to update status'']"
    by (simp add: settle_effects_def no_callbacks_def)
  have s1: "settle st useUpdateTaskStatus (dragEnd_callbacks newStatus) (Inl err) =
     st\<lparr>toasts := toasts st @ [Failure ''Failed to update status'',
                                 Failure ''Failed to update task status'']\<rparr>"
    unfolding settle_def e1 by (rule apply_effects_toasts_only)
  have s2: "settle st useUpdateTaskStatus no_callbacks (Inl err) =
     st\<lparr>toasts := toasts st @ [Failure ''Failed to update status'']\<rparr>"
    unfolding settle_def e2 by (rule apply_effects_toasts_only)
  have inv: "filter is_invalidation (onSuccess useUpdateTaskStatus d) = [InvalidateQueries [''tasks'']]"
    by (cases d) (simp_all add: status_toast_kind)
  show ?thesis
    unfolding s1 s2 e1 e2 using inv by (simp add: displayed_tasks_def)
qed

section \<open>The notification of the time log\<close>

text \<open>
  C10. After a successful add-time mutation the success notification reads \<open>+\<close>, the
  returned task's \<^verbatim>\<open>total_minutes\<close>, \<open>min logged\<close>: the running total. With a server
  that returns the task with the minutes added to its total, the text names the minutes
  just added exactly when the total before was zero.
\<close>

theorem add_time_toast_shows_total:
  "success_toasts (onSuccess useAddTimeToTask (TaskData task)) =
     [''+'' @ show_int (total_minutes task) @ ''min logged''] \<and>
   (success_toasts (onSuccess useAddTimeToTask (TaskData (server_add_time task minutes))) =
      [''+'' @ show_int minutes @ ''min logged'']) =
   (total_minutes task = 0)"
proof -
  have "(show_int (total_minutes task + minutes) = show_int minutes) = (total_minutes task = 0)"
    using show_int_inj [of "total_minutes task + minutes" minutes] by auto
  then show ?thesis
    by (simp add: server_add_time_def)
qed

section \<open>Dropping a card on the board\<close>

lemma handleDragEnd_at_most_one: "length (snd (handleDragEnd tasks event)) \<le> 1"
  by (simp add: handleDragEnd_def Let_def split: option.splits)

lemma handleDragEnd_clears_active: "fst (handleDragEnd tasks event) = None"
  by (simp add: handleDragEnd_def Let_def split: option.splits)

text \<open>
  Over a column, or over nothing, the handler does what the spec says: no request
  without a target, for an unknown task or for the task's own column, and otherwise one
  request for the column.
\<close>

lemma handleDragEnd_no_target:
  "requests_of (handleDragEnd (Some ts) (drop_event dragged None)) =
   spec_drag_requests ts dragged None"
  by (simp add: requests_of_def handleDragEnd_def drop_event_def spec_drag_requests_def)

lemma handleDragEnd_column_target:
  "requests_of (handleDragEnd (Some ts) (drop_event dragged (Some (ColumnDrop col)))) =
   spec_drag_requests ts dragged (Some (ColumnDrop col))"
  by (auto simp: requests_of_def handleDragEnd_def drop_event_def spec_drag_requests_def
      split: option.splits)

text \<open>
  C3. Over a card the handler takes the card's identifier for a status. With the tasks
  \<open>t1\<close> and \<open>t2\<close> both in the TODO column, releasing \<open>t1\<close> over the card of \<open>t2\<close> (a
  droppable of the board, whose column is the task's own) issues a status update of
  \<open>t1\<close> to the status \<open>t2\<close>, where the spec issues no request.
\<close>

theorem handleDragEnd_card_target:
  "CardDrop ''t2'' \<in> set (board_droppables [example_task ''t1'' TODO 0, example_task ''t2'' TODO 0]) \<and>
   target_column [example_task ''t1'' TODO 0, example_task ''t2'' TODO 0] (CardDrop ''t2'') =
     Some (status (example_task ''t1'' TODO 0)) \<and>
   spec_drag_requests [example_task ''t1'' TODO 0, example_task ''t2'' TODO 0] ''t1''
     (Some (CardDrop ''t2'')) = [] \<and>
   requests_of (handleDragEnd (Some [example_task ''t1'' TODO 0, example_task ''t2'' TODO 0])
     (drop_event ''t1'' (Some (CardDrop ''t2'')))) = [(''t1'', ''t2'')]"
  by (simp add: board_droppables_def tasksByStatus_def example_task_def
      spec_drag_requests_def requests_of_def handleDragEnd_def drop_event_def TODO_def)

section \<open>The guard of the time log\<close>

lemma handleAddTime_cases:
  "handleAddTime task form =
     (case parseInt (timeInput form) of
        None \<Rightarrow> ([], form)
      | Some m \<Rightarrow> if 0 < m then ([(task_id task, m)], \<lparr>timeInput = '''', showTimeInput = False\<rparr>)
                  else ([], form))"
  by (simp add: handleAddTime_def)

lemma parseInt_minus_nonpositive:
  assumes "dropWhile is_ws s \<noteq> []" and "hd (dropWhile is_ws s) = CHR ''-''"
    and "parseInt s = Some m"
  shows "m \<le> 0"
proof -
  from assms(3) obtain v :: nat where "m = - 1 * int v"
    using assms(1,2) by (auto simp: parseInt_def Let_def split: if_splits)
  then show ?thesis by simp
qed

lemma zero_is_dec_digit: "is_dec_digit CHR ''0''"
  by (simp add: is_dec_digit_def is_radix_digit_def radix_digit_value_def)

lemma parseInt_no_digit:
  assumes "S1 = (if dropWhile is_ws s \<noteq> [] \<and>
                    (hd (dropWhile is_ws s) = CHR ''+'' \<or> hd (dropWhile is_ws s) = CHR ''-'')
                 then tl (dropWhile is_ws s) else dropWhile is_ws s)"
    and "S1 = [] \<or> \<not> is_dec_digit (hd S1)"
  shows "parseInt s = None"
proof -
  have nohex: "\<not> (2 \<le> length S1 \<and> (take 2 S1 = ''0x'' \<or> take 2 S1 = ''0X''))"
  proof
    assume hx: "2 \<le> length S1 \<and> (take 2 S1 = ''0x'' \<or> take 2 S1 = ''0X'')"
    then obtain a b rest where S1: "S1 = a # b # rest"
      by (cases S1; cases "tl S1") auto
    with hx have "a = CHR ''0''" by auto
    with S1 assms(2) zero_is_dec_digit show False by simp
  qed
  have nodigits: "takeWhile (is_radix_digit 10) S1 = []"
    using assms(2) by (cases S1) (auto simp: is_dec_digit_def)
  show ?thesis
    unfolding parseInt_def Let_def assms(1) [symmetric]
    using nohex nodigits by auto
qed

lemma parseInt_blank:
  assumes "dropWhile is_ws s = []"
  shows "parseInt s = None"
  by (rule parseInt_no_digit [where ?S1.0 = "[]"]) (simp_all add: assms)

lemma KanbanTaskCard_handleAddTime_same:
  "fst (KanbanTaskCard_handleAddTime task form) = handleAddTime task form"
  by (simp add: KanbanTaskCard_handleAddTime_def handleAddTime_def split: option.splits)

subsection \<open>The values of the number field\<close>

lemma dec_digit_range: "is_dec_digit c = (48 \<le> (of_char c :: nat) \<and> (of_char c :: nat) \<le> 57)"
  by (auto simp: is_dec_digit_def is_radix_digit_def radix_digit_value_def Let_def)

lemma dec_digit_plain:
  assumes "is_dec_digit c"
  shows "\<not> is_ws c" "c \<noteq> CHR ''+''" "c \<noteq> CHR ''-''" "c \<noteq> CHR ''x''" "c \<noteq> CHR ''X''"
  using assms by (auto simp: dec_digit_range is_ws_def)

lemma point_plain:
  "\<not> is_ws CHR ''.''" "\<not> is_dec_digit CHR ''.''" "\<not> is_ws CHR ''-''"
  by (simp_all add: dec_digit_range is_ws_def)

lemma takeWhile_dec_digit: "takeWhile (is_radix_digit 10) s = takeWhile is_dec_digit s"
  by (rule takeWhile_cong) (simp_all add: is_dec_digit_def)

text \<open>A text that starts with a digit and has no \<^verbatim>\<open>0x\<close> is read as its leading digits.\<close>

lemma parseInt_leading_digits:
  assumes "is_dec_digit c" and "cs = [] \<or> (hd cs \<noteq> CHR ''x'' \<and> hd cs \<noteq> CHR ''X'')"
  shows "parseInt (c # cs) = Some (int (radix_value 10 (takeWhile is_dec_digit (c # cs))))"
proof -
  have ws: "dropWhile is_ws (c # cs) = c # cs"
    using dec_digit_plain(1) [OF assms(1)] by simp
  have nohex: "(2 \<le> length (c # cs) \<and> (take 2 (c # cs) = ''0x'' \<or> take 2 (c # cs) = ''0X''))
      = False"
    using assms(2) by (cases cs) auto
  have minus: "(c # cs \<noteq> [] \<and> hd (c # cs) = CHR ''-'') = False"
    using dec_digit_plain(3) [OF assms(1)] by simp
  have sign: "(c # cs \<noteq> [] \<and> (hd (c # cs) = CHR ''+'' \<or> hd (c # cs) = CHR ''-'')) = False"
    using dec_digit_plain(2,3) [OF assms(1)] by simp
  have digits: "(takeWhile is_dec_digit (c # cs) = []) = False"
    using assms(1) by simp
  show ?thesis
    unfolding parseInt_def Let_def ws minus sign nohex if_False takeWhile_dec_digit digits
    by simp
qed

lemma foldl_radix:
  fixes R :: nat and g :: "char \<Rightarrow> nat"
  shows "foldl (\<lambda>acc c. R * acc + g c) a b =
     a * R ^ length b + foldl (\<lambda>acc c. R * acc + g c) 0 b"
proof (induction b arbitrary: a)
  case Nil
  show ?case by simp
next
  case (Cons x b)
  have "foldl (\<lambda>acc c. R * acc + g c) a (x # b) =
        (R * a + g x) * R ^ length b + foldl (\<lambda>acc c. R * acc + g c) 0 b"
    using Cons.IH [of "R * a + g x"] by simp
  moreover have "foldl (\<lambda>acc c. R * acc + g c) 0 (x # b) =
        g x * R ^ length b + foldl (\<lambda>acc c. R * acc + g c) 0 b"
    using Cons.IH [of "g x"] by simp
  ultimately show ?case by (simp add: algebra_simps)
qed

lemma radix_value_append:
  "radix_value R (a @ b) = radix_value R a * R ^ length b + radix_value R b"
  unfolding radix_value_def foldl_append by (rule foldl_radix)

lemma mantissa_zero_integer:
  assumes "mantissa s = 0"
  shows "radix_value 10 (integer_digits s) = 0"
  using assms by (simp add: mantissa_def radix_value_append)

text \<open>
  For a value of the field that is non-numeric or non-positive, \<^verbatim>\<open>parseInt\<close> gives
  \<^verbatim>\<open>NaN\<close> or an integer that is not greater than zero.
\<close>

lemma field_value_parse:
  assumes field: "number_field_value s" and rej: "non_positive s \<or> non_numeric s"
  shows "parseInt s = None \<or> (\<exists>m. parseInt s = Some m \<and> m \<le> 0)"
proof (cases "valid_number s")
  case False
  with field have "s = []" by (simp add: number_field_value_def)
  then have "parseInt s = None" by (simp add: parseInt_blank)
  then show ?thesis by simp
next
  case True
  with rej have np: "has_minus s \<or> mantissa s = 0"
    by (simp add: non_positive_def non_numeric_def)
  show ?thesis
  proof (cases "has_minus s")
    case True
    then obtain rest where s: "s = CHR ''-'' # rest"
      by (cases s) (auto simp: has_minus_def)
    then have ws: "dropWhile is_ws s = s"
      by (simp add: point_plain)
    have d: "dropWhile is_ws s \<noteq> []" and h: "hd (dropWhile is_ws s) = CHR ''-''"
      unfolding ws by (simp_all add: s)
    show ?thesis
    proof (cases "parseInt s")
      case None
      then show ?thesis by simp
    next
      case (Some m)
      from d h Some have "m \<le> 0"
        by (rule parseInt_minus_nonpositive)
      with Some show ?thesis by simp
    qed
  next
    case False
    with np have m0: "mantissa s = 0" by simp
    from False have u: "unsigned_part s = s" by (simp add: unsigned_part_def)
    show ?thesis
    proof (cases "integer_digits s = []")
      case True
      with \<open>valid_number s\<close> have "fraction_digits s \<noteq> []"
        by (simp add: valid_number_def)
      then have hp: "has_point s"
        by (simp add: fraction_digits_def split: if_splits)
      have "after_integer s = s"
        using True u takeWhile_dropWhile_id [of is_dec_digit s]
        by (simp add: after_integer_def integer_digits_def)
      with hp obtain rest where s: "s = CHR ''.'' # rest"
        by (cases s) (auto simp: has_point_def)
      have "parseInt s = None"
        by (rule parseInt_no_digit [where ?S1.0 = s]) (simp_all add: s point_plain)
      then show ?thesis by simp
    next
      case False
      then obtain c cs where s: "s = c # cs" and c: "is_dec_digit c"
        using u by (cases s) (auto simp: integer_digits_def split: if_splits)
      have nox: "cs = [] \<or> (hd cs \<noteq> CHR ''x'' \<and> hd cs \<noteq> CHR ''X'')"
      proof (rule ccontr)
        assume "\<not> (cs = [] \<or> (hd cs \<noteq> CHR ''x'' \<and> hd cs \<noteq> CHR ''X''))"
        then obtain x rest where cs: "cs = x # rest" and x: "x = CHR ''x'' \<or> x = CHR ''X''"
          by (cases cs) auto
        from x have xd: "\<not> is_dec_digit x" and xp: "x \<noteq> CHR ''.''"
          and xe: "x \<noteq> CHR ''e''" "x \<noteq> CHR ''E''"
          by (auto simp: dec_digit_range)
        have ai: "after_integer s = x # rest"
          using u c xd by (simp add: after_integer_def s cs)
        then have "\<not> has_point s" using xp by (simp add: has_point_def)
        then have "after_fraction s = x # rest"
          using ai by (simp add: after_fraction_def)
        then have "\<not> exponent_ok (after_fraction s)"
          using xe by (simp add: exponent_ok_def)
        with \<open>valid_number s\<close> show False by (simp add: valid_number_def)
      qed
      have "parseInt s = Some (int (radix_value 10 (integer_digits s)))"
        using parseInt_leading_digits [OF c nox] u by (simp add: s integer_digits_def)
      then have "parseInt s = Some 0"
        using mantissa_zero_integer [OF m0] by simp
      then show ?thesis by simp
    qed
  qed
qed

text \<open>
  C4. For every value the minutes field can deliver that is non-positive or
  non-numeric, the handler, the same on both cards, issues no add-time request and
  leaves the form as it is. It parses the input with \<^verbatim>\<open>parseInt\<close> and starts the
  mutation only when the parsed minutes are greater than zero, and then with them: not
  when the parse gives \<^verbatim>\<open>NaN\<close>, not when it gives zero or less.
\<close>

theorem handleAddTime_guard:
  assumes "number_field_value (timeInput form)"
  shows
   "(non_positive (timeInput form) \<or> non_numeric (timeInput form) \<longrightarrow>
      add_time_requests (handleAddTime task form) = [] \<and>
      add_time_requests (fst (KanbanTaskCard_handleAddTime task form)) = [] \<and>
      snd (handleAddTime task form) = form) \<and>
    (parseInt (timeInput form) = None \<longrightarrow>
      add_time_requests (handleAddTime task form) = [] \<and> snd (handleAddTime task form) = form) \<and>
    (\<forall>m. parseInt (timeInput form) = Some m \<and> m \<le> 0 \<longrightarrow>
      add_time_requests (handleAddTime task form) = [] \<and> snd (handleAddTime task form) = form) \<and>
    (\<forall>m. parseInt (timeInput form) = Some m \<and> 0 < m \<longrightarrow>
      add_time_requests (handleAddTime task form) =
        [(''POST'', ''/tasks/'' @ task_id task @ ''/time'', m)]) \<and>
    fst (KanbanTaskCard_handleAddTime task form) = handleAddTime task form"
proof (intro conjI allI impI)
  assume rej: "non_positive (timeInput form) \<or> non_numeric (timeInput form)"
  have p: "parseInt (timeInput form) = None \<or> (\<exists>m. parseInt (timeInput form) = Some m \<and> m \<le> 0)"
    using assms rej by (rule field_value_parse)
  then show "add_time_requests (handleAddTime task form) = []"
    by (auto simp: handleAddTime_cases add_time_requests_def)
  then show "add_time_requests (fst (KanbanTaskCard_handleAddTime task form)) = []"
    by (simp add: KanbanTaskCard_handleAddTime_same)
  from p show "snd (handleAddTime task form) = form"
    by (auto simp: handleAddTime_cases)
next
  assume "parseInt (timeInput form) = None"
  then show "add_time_requests (handleAddTime task form) = []"
    and "snd (handleAddTime task form) = form"
    by (simp_all add: handleAddTime_cases add_time_requests_def)
next
  fix m assume "parseInt (timeInput form) = Some m \<and> m \<le> 0"
  then show "add_time_requests (handleAddTime task form) = []"
    and "snd (handleAddTime task form) = form"
    by (simp_all add: handleAddTime_cases add_time_requests_def)
next
  fix m assume "parseInt (timeInput form) = Some m \<and> 0 < m"
  then show "add_time_requests (handleAddTime task form) =
        [(''POST'', ''/tasks/'' @ task_id task @ ''/time'', m)]"
    by (simp add: handleAddTime_cases add_time_requests_def)
next
  show "fst (KanbanTaskCard_handleAddTime task form) = handleAddTime task form"
    by (rule KanbanTaskCard_handleAddTime_same)
qed

theorem handleAddTime_guard_witness:
  "number_field_value ''-5'' \<and> non_positive ''-5'' \<and>
   add_time_requests (handleAddTime (example_task ''a'' TODO 3)
     \<lparr>timeInput = ''-5'', showTimeInput = True\<rparr>) = [] \<and>
   number_field_value ''0.0'' \<and> non_positive ''0.0'' \<and>
   add_time_requests (handleAddTime (example_task ''a'' TODO 3)
     \<lparr>timeInput = ''0.0'', showTimeInput = True\<rparr>) = [] \<and>
   number_field_value '''' \<and> non_numeric '''' \<and>
   add_time_requests (handleAddTime (example_task ''a'' TODO 3)
     \<lparr>timeInput = '''', showTimeInput = True\<rparr>) = [] \<and>
   number_field_value ''15'' \<and> parseInt ''15'' = Some 15 \<and>
   add_time_requests (handleAddTime (example_task ''a'' TODO 3)
     \<lparr>timeInput = ''15'', showTimeInput = True\<rparr>) = [(''POST'', ''/tasks/a/time'', 15)]"
proof -
  have f1: "number_field_value ''-5''" and n1: "non_positive ''-5''" by code_simp+
  have f2: "number_field_value ''0.0''" and n2: "non_positive ''0.0''" by code_simp+
  have f3: "number_field_value ''''" and n3: "non_numeric ''''" by code_simp+
  have f4: "number_field_value ''15''" and p4: "parseInt ''15'' = Some 15" by code_simp+
  have i: "task_id (example_task ''a'' TODO 3) = ''a''" by (simp add: example_task_def)
  have 1: "add_time_requests (handleAddTime (example_task ''a'' TODO 3)
     \<lparr>timeInput = ''-5'', showTimeInput = True\<rparr>) = []"
    using handleAddTime_guard [where form = "\<lparr>timeInput = ''-5'', showTimeInput = True\<rparr>"
        and task = "example_task ''a'' TODO 3", THEN conjunct1] f1 n1
    by simp
  have 2: "add_time_requests (handleAddTime (example_task ''a'' TODO 3)
     \<lparr>timeInput = ''0.0'', showTimeInput = True\<rparr>) = []"
    using handleAddTime_guard [where form = "\<lparr>timeInput = ''0.0'', showTimeInput = True\<rparr>"
        and task = "example_task ''a'' TODO 3", THEN conjunct1] f2 n2
    by simp
  have 3: "add_time_requests (handleAddTime (example_task ''a'' TODO 3)
     \<lparr>timeInput = '''', showTimeInput = True\<rparr>) = []"
    using handleAddTime_guard [where form = "\<lparr>timeInput = '''', showTimeInput = True\<rparr>"
        and task = "example_task ''a'' TODO 3", THEN conjunct1] f3 n3
    by simp
  have 4: "add_time_requests (handleAddTime (example_task ''a'' TODO 3)
     \<lparr>timeInput = ''15'', showTimeInput = True\<rparr>) = [(''POST'', ''/tasks/a/time'', 15)]"
    using handleAddTime_guard [where form = "\<lparr>timeInput = ''15'', showTimeInput = True\<rparr>"
        and task = "example_task ''a'' TODO 3",
        THEN conjunct2, THEN conjunct2, THEN conjunct2, THEN conjunct1] f4 p4
    by (simp add: i)
  from f1 n1 1 f2 n2 2 f3 n3 3 f4 p4 4 show ?thesis by blast
qed

text \<open>
  The restriction to the values of the field matters: by itself the handler takes the
  leading integer of any text, as for \<^verbatim>\<open>12abc\<close>, which the field does not deliver.
\<close>

lemma handleAddTime_leading_integer:
  "\<not> number_field_value ''12abc'' \<and>
   add_time_requests (handleAddTime (example_task ''a'' TODO 3)
     \<lparr>timeInput = ''12abc'', showTimeInput = True\<rparr>) = [(''POST'', ''/tasks/a/time'', 12)]"
proof -
  have n: "\<not> number_field_value ''12abc''" by code_simp
  have p: "parseInt ''12abc'' = Some 12" by code_simp
  show ?thesis
    using n p by (simp add: handleAddTime_cases add_time_requests_def example_task_def)
qed

section \<open>What a request returns and throws\<close>

lemma request_resolved:
  assumes "fetch (baseURL @ endpoint) (request_config localStorage options) = Resolved r"
  shows "request baseURL localStorage fetch endpoint options =
     (if \<not> ok r then Inl (new_Error (errorMessage r))
      else case body_json r of None \<Rightarrow> Inl SyntaxError | Some v \<Rightarrow> Inr v)"
proof -
  have "instanceof_Error (new_Error (errorMessage r))"
    by (simp add: new_Error_def split: option.splits)
  then show ?thesis
    using assms by (simp add: request_def request_body_def Let_def split: option.splits)
qed

lemma errorMessage_object:
  "body_json r = Some (JObj kvs) \<Longrightarrow>
   errorMessage r =
     (case truthy_field kvs ''detail'' of
        Some d \<Rightarrow> d
      | None \<Rightarrow> (case truthy_field kvs ''message'' of
                   Some m \<Rightarrow> m
                 | None \<Rightarrow> JStr (default_message r)))"
  by (simp add: errorMessage_def truthy_field_def split: option.splits)

lemma errorMessage_not_object:
  "body_json r = Some v \<Longrightarrow> \<not> is_object v \<Longrightarrow> errorMessage r = JStr (default_message r)"
  by (cases v) (simp_all add: errorMessage_def truthy_property_def)

lemma errorMessage_not_json:
  "body_json r = None \<Longrightarrow> errorMessage r = JStr (default_message r)"
  by (simp add: errorMessage_def)

lemma new_Error_string: "js_toString v = Some msg \<Longrightarrow> new_Error v = Error msg"
  by (simp add: new_Error_def)

lemma new_Error_default: "new_Error (JStr s) = Error s"
  by (simp add: new_Error_def)

text \<open>
  A truthy \<^verbatim>\<open>detail\<close> with no string, such as an object with a property
  \<^verbatim>\<open>toString\<close>, makes the method throw the \<^verbatim>\<open>TypeError\<close> of the conversion.
\<close>

lemma request_detail_without_string:
  assumes "fetch (baseURL @ endpoint) (request_config localStorage options) = Resolved r"
    and "\<not> ok r" and "body_json r = Some (JObj kvs)"
    and "truthy_field kvs ''detail'' = Some d" and "js_toString d = None"
  shows "request baseURL localStorage fetch endpoint options = Inl TypeError"
proof -
  have "request baseURL localStorage fetch endpoint options =
     (if \<not> ok r then Inl (new_Error (errorMessage r))
      else case body_json r of None \<Rightarrow> Inl SyntaxError | Some v \<Rightarrow> Inr v)"
    using assms(1) by (rule request_resolved)
  then show ?thesis
    using assms(2-5) by (simp add: errorMessage_object new_Error_def)
qed

text \<open>
  C6, as amended. For a response that \<^verbatim>\<open>request\<close> receives: when the status is not 2xx
  the method throws an \<^verbatim>\<open>Error\<close> whose message is the string of the body's
  \<^verbatim>\<open>detail\<close> field if that is present and truthy, otherwise the string of its
  \<^verbatim>\<open>message\<close> field if that is present and truthy (in both cases for a value that has
  a string), otherwise \<^verbatim>\<open>HTTP {status}: {statusText}\<close>, which is also the message when
  the body is not JSON or is JSON but no object; when the status is 2xx and the body is
  JSON, the method returns the parsed body.
\<close>

theorem request_outcome:
  assumes "fetch (baseURL @ endpoint) (request_config localStorage options) = Resolved r"
  shows
   "(\<not> ok r \<and> body_json r = Some (JObj kvs) \<and> truthy_field kvs ''detail'' = Some d \<and>
     js_toString d = Some msg \<longrightarrow>
       request baseURL localStorage fetch endpoint options = Inl (Error msg)) \<and>
    (\<not> ok r \<and> body_json r = Some (JObj kvs) \<and> truthy_field kvs ''detail'' = None \<and>
     truthy_field kvs ''message'' = Some m \<and> js_toString m = Some msg \<longrightarrow>
       request baseURL localStorage fetch endpoint options = Inl (Error msg)) \<and>
    (\<not> ok r \<and> body_json r = Some (JObj kvs) \<and> truthy_field kvs ''detail'' = None \<and>
     truthy_field kvs ''message'' = None \<longrightarrow>
       request baseURL localStorage fetch endpoint options = Inl (Error (default_message r))) \<and>
    (\<not> ok r \<and> body_json r = None \<longrightarrow>
       request baseURL localStorage fetch endpoint options = Inl (Error (default_message r))) \<and>
    (\<not> ok r \<and> body_json r = Some v \<and> \<not> is_object v \<longrightarrow>
       request baseURL localStorage fetch endpoint options = Inl (Error (default_message r))) \<and>
    (ok r \<and> body_json r = Some v \<longrightarrow>
       request baseURL localStorage fetch endpoint options = Inr v)"
proof -
  have req: "request baseURL localStorage fetch endpoint options =
     (if \<not> ok r then Inl (new_Error (errorMessage r))
      else case body_json r of None \<Rightarrow> Inl SyntaxError | Some v \<Rightarrow> Inr v)"
    using assms by (rule request_resolved)
  have a: "\<not> ok r \<and> body_json r = Some (JObj kvs) \<and> truthy_field kvs ''detail'' = Some d \<and>
     js_toString d = Some msg \<longrightarrow>
       request baseURL localStorage fetch endpoint options = Inl (Error msg)"
    by (simp add: req errorMessage_object new_Error_string)
  have b: "\<not> ok r \<and> body_json r = Some (JObj kvs) \<and> truthy_field kvs ''detail'' = None \<and>
     truthy_field kvs ''message'' = Some m \<and> js_toString m = Some msg \<longrightarrow>
       request baseURL localStorage fetch endpoint options = Inl (Error msg)"
    by (simp add: req errorMessage_object new_Error_string)
  have c: "\<not> ok r \<and> body_json r = Some (JObj kvs) \<and> truthy_field kvs ''detail'' = None \<and>
     truthy_field kvs ''message'' = None \<longrightarrow>
       request baseURL localStorage fetch endpoint options = Inl (Error (default_message r))"
    by (simp add: req errorMessage_object new_Error_default)
  have d: "\<not> ok r \<and> body_json r = None \<longrightarrow>
       request baseURL localStorage fetch endpoint options = Inl (Error (default_message r))"
    by (simp add: req errorMessage_not_json new_Error_default)
  have e: "\<not> ok r \<and> body_json r = Some v \<and> \<not> is_object v \<longrightarrow>
       request baseURL localStorage fetch endpoint options = Inl (Error (default_message r))"
    by (simp add: req errorMessage_not_object new_Error_default)
  have f: "ok r \<and> body_json r = Some v \<longrightarrow>
       request baseURL localStorage fetch endpoint options = Inr v"
    by (simp add: req)
  from a b c d e f show ?thesis by blast
qed

lemma examples_ok:
  "\<not> ok (bad_request b)" "ok (ok_response v)" "ok no_content"
  by (simp_all add: ok_def bad_request_def ok_response_def no_content_def)

lemma examples_body:
  "body_json (bad_request b) = b" "body_json (ok_response v) = Some v" "body_json no_content = None"
  by (simp_all add: bad_request_def ok_response_def no_content_def)

lemma default_message_bad_request: "default_message (bad_request b) = ''HTTP 400: Bad Request''"
proof -
  have "show_nat 400 = ''400''" by code_simp
  then show ?thesis by (simp add: default_message_def bad_request_def)
qed

theorem request_outcome_witness:
  "request API_BASE Map.empty
     (answering (bad_request (Some (JObj [(''detail'', JStr ''Task not found'')]))))
     ''/tasks/7'' no_options = Inl (Error ''Task not found'') \<and>
   request API_BASE Map.empty
     (answering (bad_request (Some (JObj [(''message'', JStr ''Forbidden'')]))))
     ''/tasks/7'' no_options = Inl (Error ''Forbidden'') \<and>
   request API_BASE Map.empty
     (answering (bad_request (Some (JObj [(''code'', JNum ''7'')]))))
     ''/tasks/7'' no_options = Inl (Error ''HTTP 400: Bad Request'') \<and>
   request API_BASE Map.empty (answering (bad_request None))
     ''/tasks/7'' no_options = Inl (Error ''HTTP 400: Bad Request'') \<and>
   request API_BASE Map.empty (answering (bad_request (Some JNull)))
     ''/tasks/7'' no_options = Inl (Error ''HTTP 400: Bad Request'') \<and>
   request API_BASE Map.empty (answering (ok_response (JArr [])))
     ''/tasks'' no_options = Inr (JArr [])"
proof -
  have f: "\<And>r e. answering r (API_BASE @ e) (request_config Map.empty no_options) = Resolved r"
    by (simp add: answering_def)
  note inst = request_outcome [where baseURL = API_BASE and localStorage = Map.empty
      and options = no_options]
  have 1: "request API_BASE Map.empty
     (answering (bad_request (Some (JObj [(''detail'', JStr ''Task not found'')]))))
     ''/tasks/7'' no_options = Inl (Error ''Task not found'')"
    using inst [where fetch = "answering (bad_request (Some (JObj [(''detail'', JStr ''Task not found'')])))"
        and endpoint = "''/tasks/7''"
        and r = "bad_request (Some (JObj [(''detail'', JStr ''Task not found'')]))"
        and kvs = "[(''detail'', JStr ''Task not found'')]" and d = "JStr ''Task not found''"
        and msg = "''Task not found''",
        OF f, THEN conjunct1]
    by (simp add: examples_ok examples_body truthy_field_def truthy_property_def)
  have 2: "request API_BASE Map.empty
     (answering (bad_request (Some (JObj [(''message'', JStr ''Forbidden'')]))))
     ''/tasks/7'' no_options = Inl (Error ''Forbidden'')"
    using inst [where fetch = "answering (bad_request (Some (JObj [(''message'', JStr ''Forbidden'')])))"
        and endpoint = "''/tasks/7''"
        and r = "bad_request (Some (JObj [(''message'', JStr ''Forbidden'')]))"
        and kvs = "[(''message'', JStr ''Forbidden'')]" and m = "JStr ''Forbidden''"
        and msg = "''Forbidden''",
        OF f, THEN conjunct2, THEN conjunct1]
    by (simp add: examples_ok examples_body truthy_field_def truthy_property_def)
  have 3: "request API_BASE Map.empty
     (answering (bad_request (Some (JObj [(''code'', JNum ''7'')]))))
     ''/tasks/7'' no_options = Inl (Error ''HTTP 400: Bad Request'')"
    using inst [where fetch = "answering (bad_request (Some (JObj [(''code'', JNum ''7'')])))"
        and endpoint = "''/tasks/7''"
        and r = "bad_request (Some (JObj [(''code'', JNum ''7'')]))"
        and kvs = "[(''code'', JNum ''7'')]",
        OF f, THEN conjunct2, THEN conjunct2, THEN conjunct1]
    by (simp add: examples_ok examples_body truthy_field_def truthy_property_def
        default_message_bad_request)
  have 4: "request API_BASE Map.empty (answering (bad_request None))
     ''/tasks/7'' no_options = Inl (Error ''HTTP 400: Bad Request'')"
    using inst [where fetch = "answering (bad_request None)" and endpoint = "''/tasks/7''"
        and r = "bad_request None",
        OF f, THEN conjunct2, THEN conjunct2, THEN conjunct2, THEN conjunct1]
    by (simp add: examples_ok examples_body default_message_bad_request)
  have 5: "request API_BASE Map.empty (answering (bad_request (Some JNull)))
     ''/tasks/7'' no_options = Inl (Error ''HTTP 400: Bad Request'')"
    using inst [where fetch = "answering (bad_request (Some JNull))" and endpoint = "''/tasks/7''"
        and r = "bad_request (Some JNull)" and v = JNull,
        OF f, THEN conjunct2, THEN conjunct2, THEN conjunct2, THEN conjunct2, THEN conjunct1]
    by (simp add: examples_ok examples_body default_message_bad_request)
  have 6: "request API_BASE Map.empty (answering (ok_response (JArr [])))
     ''/tasks'' no_options = Inr (JArr [])"
    using inst [where fetch = "answering (ok_response (JArr []))" and endpoint = "''/tasks''"
        and r = "ok_response (JArr [])" and v = "JArr []",
        OF f, THEN conjunct2, THEN conjunct2, THEN conjunct2, THEN conjunct2, THEN conjunct2]
    by (simp add: examples_ok examples_body)
  from 1 2 3 4 5 6 show ?thesis by blast
qed

text \<open>
  C6, as stated, fails twice. A 2xx response whose body is not JSON, such as the empty
  body of a 204 to a DELETE, makes \<^verbatim>\<open>request\<close> throw a \<^verbatim>\<open>SyntaxError\<close> where the claim
  has it return. And a \<^verbatim>\<open>detail\<close> field that is present but empty is passed over: the
  message is that of the \<^verbatim>\<open>message\<close> field.
\<close>

theorem request_counterexample:
  "ok no_content \<and>
   api_call API_BASE Map.empty (answering no_content) (deleteTask ''7'') = Inl SyntaxError \<and>
   \<not> ok (bad_request (Some (JObj [(''detail'', JStr ''''), (''message'', JStr ''boom'')]))) \<and>
   map_of [(''detail'', JStr ''''), (''message'', JStr ''boom'')] ''detail'' = Some (JStr '''') \<and>
   api_call API_BASE Map.empty
     (answering (bad_request (Some (JObj [(''detail'', JStr ''''), (''message'', JStr ''boom'')]))))
     (getTask ''7'') = Inl (Error ''boom'')"
  by (simp add: examples_ok api_call_def request_def request_body_def answering_def
      no_content_def errorMessage_def new_Error_def truthy_property_def bad_request_def ok_def)

section \<open>The bearer token\<close>

lemma operation_passes_no_headers: "req_headers (snd (operation_request op)) = None"
  by (cases op) (simp_all add: with_body_def method_only_def no_options_def)

lemma sent_headers_getHeaders: "sent_headers localStorage op = getHeaders localStorage"
  by (simp add: sent_headers_def request_config_def operation_passes_no_headers)

text \<open>
  C7. For every operation of the client that goes through \<^verbatim>\<open>request\<close>, the
  configuration handed to \<^verbatim>\<open>fetch\<close> is the operation's options with the headers of
  \<^verbatim>\<open>getHeaders\<close>: always \<open>Content-Type: application/json\<close>; with an access token in
  storage, \<open>Authorization: Bearer\<close> and the token; with none, no \<open>Authorization\<close>
  header. A stored empty string is no token: it is falsy, and no header is attached.
\<close>

theorem request_carries_bearer_token:
  "(localStorage ''access_token'' = Some token \<and> token \<noteq> [] \<longrightarrow>
      sent_headers localStorage op ''Authorization'' = Some (''Bearer '' @ token)) \<and>
   (localStorage ''access_token'' = None \<longrightarrow>
      sent_headers localStorage op ''Authorization'' = None) \<and>
   (localStorage ''access_token'' = Some [] \<longrightarrow>
      sent_headers localStorage op ''Authorization'' = None) \<and>
   sent_headers localStorage op ''Content-Type'' = Some ''application/json'' \<and>
   request_config localStorage (snd (operation_request op)) =
     (snd (operation_request op))\<lparr>req_headers := Some (sent_headers localStorage op)\<rparr> \<and>
   api_call baseURL localStorage fetch op =
     (case request_body (fetch (baseURL @ fst (operation_request op))
             ((snd (operation_request op))\<lparr>req_headers := Some (sent_headers localStorage op)\<rparr>)) of
        Inl error \<Rightarrow> if instanceof_Error error then Inl error
                     else Inl (Error ''An unexpected error occurred'')
      | Inr v \<Rightarrow> Inr v)"
proof -
  have cfg: "request_config localStorage (snd (operation_request op)) =
     (snd (operation_request op))\<lparr>req_headers := Some (sent_headers localStorage op)\<rparr>"
    by (simp add: sent_headers_getHeaders) (simp add: request_config_def operation_passes_no_headers)
  have call: "api_call baseURL localStorage fetch op =
     (case request_body (fetch (baseURL @ fst (operation_request op))
             (request_config localStorage (snd (operation_request op)))) of
        Inl error \<Rightarrow> if instanceof_Error error then Inl error
                     else Inl (Error ''An unexpected error occurred'')
      | Inr v \<Rightarrow> Inr v)"
    by (simp add: api_call_def request_def Let_def)
  have hs: "(localStorage ''access_token'' = Some token \<and> token \<noteq> [] \<longrightarrow>
      getHeaders localStorage ''Authorization'' = Some (''Bearer '' @ token)) \<and>
   (localStorage ''access_token'' = None \<longrightarrow> getHeaders localStorage ''Authorization'' = None) \<and>
   (localStorage ''access_token'' = Some [] \<longrightarrow> getHeaders localStorage ''Authorization'' = None) \<and>
   getHeaders localStorage ''Content-Type'' = Some ''application/json''"
    by (simp add: getHeaders_def Let_def split: option.splits)
  show ?thesis
    using hs call unfolding cfg by (simp add: sent_headers_getHeaders)
qed

theorem request_carries_bearer_token_witness:
  "[''access_token'' \<mapsto> ''abc.def''] ''access_token'' = Some ''abc.def'' \<and>
   sent_headers [''access_token'' \<mapsto> ''abc.def''] (updateTaskStatus ''7'' DONE) ''Authorization'' =
     Some ''Bearer abc.def'' \<and>
   sent_headers Map.empty (updateTaskStatus ''7'' DONE) ''Authorization'' = None \<and>
   sent_headers [''access_token'' \<mapsto> ''''] (updateTaskStatus ''7'' DONE) ''Authorization'' = None"
proof -
  have s: "[''access_token'' \<mapsto> ''abc.def''] ''access_token'' = Some ''abc.def''"
    by simp
  have 1: "sent_headers [''access_token'' \<mapsto> ''abc.def''] (updateTaskStatus ''7'' DONE)
      ''Authorization'' = Some ''Bearer abc.def''"
    using request_carries_bearer_token [of "[''access_token'' \<mapsto> ''abc.def'']" "''abc.def''"
        "updateTaskStatus ''7'' DONE", THEN conjunct1]
    by simp
  have 2: "sent_headers Map.empty (updateTaskStatus ''7'' DONE) ''Authorization'' = None"
    using request_carries_bearer_token [of Map.empty _ "updateTaskStatus ''7'' DONE",
        THEN conjunct2, THEN conjunct1]
    by simp
  have 3: "sent_headers [''access_token'' \<mapsto> ''''] (updateTaskStatus ''7'' DONE)
      ''Authorization'' = None"
    using request_carries_bearer_token [of "[''access_token'' \<mapsto> '''']" _
        "updateTaskStatus ''7'' DONE", THEN conjunct2, THEN conjunct2, THEN conjunct1]
    by simp
  from s 1 2 3 show ?thesis by blast
qed

section \<open>Retries\<close>

text \<open>
  C8. The client's default options set \<^verbatim>\<open>retry\<close> to 1 for queries, and every read query
  of the repository resolves to exactly one retry: a query that keeps failing is run
  twice. The default options have no entry for mutations and no mutation passes a
  \<^verbatim>\<open>retry\<close> option, so every mutation resolves to no retry: a failing mutation is run
  once.
\<close>

theorem retry_configuration:
  "map_option default_retry (queries queryClient_defaultOptions) = Some (Some 1) \<and>
   mutations queryClient_defaultOptions = None \<and>
   query_retry q = 1 \<and>
   run_with_retry (query_retry q) (\<lambda>i. False) 0 = (2, False) \<and>
   mutation_retry_option m = None \<and>
   mutation_retry m = 0 \<and>
   run_with_retry (mutation_retry m) (\<lambda>i. False) 0 = (1, False)"
proof -
  have q: "query_retry q = 1"
    by (cases q) (simp_all add: query_retry_def resolve_retry_def queryClient_defaultOptions_def)
  have o: "mutation_retry_option m = None"
    by (cases m) simp_all
  have m: "mutation_retry m = 0"
    by (simp add: mutation_retry_def o resolve_retry_def queryClient_defaultOptions_def
        library_mutation_retry_def)
  have "run_with_retry (Suc 0) (\<lambda>i. False) 0 = (Suc (Suc 0), False)"
    by simp
  then have r1: "run_with_retry 1 (\<lambda>i. False) 0 = (2, False)"
    by (simp add: numeral_2_eq_2)
  show ?thesis
    using o by (simp add: q m r1) (simp add: queryClient_defaultOptions_def)
qed

end
